theory Spec2Isabelle
  imports Complex_Main
begin

section \<open>Tensors\<close>

text \<open>
  Every tensor that \<^verbatim>\<open>module_seg_vit.py\<close> handles has three axes. A tensor is its shape
  together with its entries; entries are real numbers (the dtype casts of the source are
  the identity here, and rounding is not modelled). A failure raised by the tensor library
  is the value \<open>Inl TensorError\<close>; the source's own \<^verbatim>\<open>raise NotImplementedError\<close> is
  \<open>Inl NotImplementedError\<close>.
\<close>

datatype error = NotImplementedError | TensorError

record tensor =
  d0 :: nat
  d1 :: nat
  d2 :: nat
  el :: "nat \<Rightarrow> nat \<Rightarrow> nat \<Rightarrow> real"

definition dims :: "tensor \<Rightarrow> nat \<times> nat \<times> nat" where
  "dims t = (d0 t, d1 t, d2 t)"

definition mk :: "nat \<Rightarrow> nat \<Rightarrow> nat \<Rightarrow> (nat \<Rightarrow> nat \<Rightarrow> nat \<Rightarrow> real) \<Rightarrow> tensor" where
  "mk a b c f = \<lparr>d0 = a, d1 = b, d2 = c, el = f\<rparr>"

text \<open>\<open>wrap_dim\<close>: an axis argument as Python gives it (negative counts from the end).\<close>

definition wrap_dim :: "int \<Rightarrow> nat option" where
  "wrap_dim axis = (if 0 \<le> axis \<and> axis < 3 then Some (nat axis)
                   else if - 3 \<le> axis \<and> axis < 0 then Some (nat (axis + 3))
                   else None)"

definition size_of :: "tensor \<Rightarrow> nat \<Rightarrow> nat" where
  "size_of t axis = (if axis = 0 then d0 t else if axis = 1 then d1 t else d2 t)"

text \<open>\<open>coord axis i j l\<close> is the coordinate of position \<open>(i, j, l)\<close> on axis \<open>axis\<close>;
  \<open>along f axis i j l k\<close> reads \<open>f\<close> at \<open>(i, j, l)\<close> with that coordinate replaced by \<open>k\<close>.\<close>

definition coord :: "nat \<Rightarrow> nat \<Rightarrow> nat \<Rightarrow> nat \<Rightarrow> nat" where
  "coord axis i j l = (if axis = 0 then i else if axis = 1 then j else l)"

definition along :: "(nat \<Rightarrow> nat \<Rightarrow> nat \<Rightarrow> real) \<Rightarrow> nat \<Rightarrow> nat \<Rightarrow> nat \<Rightarrow> nat \<Rightarrow> nat \<Rightarrow> real" where
  "along f axis i j l k = (if axis = 0 then f k j l else if axis = 1 then f i k l else f i j k)"

text \<open>Entrywise operations on tensors of one shape (the shape of the first operand).\<close>

definition ew1 :: "(real \<Rightarrow> real) \<Rightarrow> tensor \<Rightarrow> tensor" where
  "ew1 g a = mk (d0 a) (d1 a) (d2 a) (\<lambda>i j l. g (el a i j l))"

definition ew2 :: "(real \<Rightarrow> real \<Rightarrow> real) \<Rightarrow> tensor \<Rightarrow> tensor \<Rightarrow> tensor" where
  "ew2 g a b = mk (d0 a) (d1 a) (d2 a) (\<lambda>i j l. g (el a i j l) (el b i j l))"

definition softmax :: "tensor \<Rightarrow> nat \<Rightarrow> tensor" where
  "softmax t axis = mk (d0 t) (d1 t) (d2 t)
     (\<lambda>i j l. exp (el t i j l) / (\<Sum>k<size_of t axis. exp (along (el t) axis i j l k)))"

text \<open>\<^verbatim>\<open>t.max(dim, keepdim=True)[1]\<close>: the position of the maximum along \<open>axis\<close>, the first one
  when several entries are maximal. The library raises when the axis is empty.\<close>

primrec argmax_first :: "(nat \<Rightarrow> real) \<Rightarrow> nat \<Rightarrow> nat" where
  "argmax_first f 0 = 0"
| "argmax_first f (Suc n) = (let m = argmax_first f n in if f m < f n then n else m)"

definition max_index :: "tensor \<Rightarrow> nat \<Rightarrow> error + (nat \<Rightarrow> nat \<Rightarrow> nat \<Rightarrow> nat)" where
  "max_index t axis =
     (if size_of t axis = 0 then Inl TensorError
      else Inr (\<lambda>i j l. argmax_first (along (el t) axis i j l) (size_of t axis)))"

definition zeros_like :: "tensor \<Rightarrow> tensor" where
  "zeros_like t = mk (d0 t) (d1 t) (d2 t) (\<lambda>i j l. 0)"

text \<open>\<^verbatim>\<open>z.scatter_(dim, index, 1.0)\<close> with an index tensor of extent 1 along \<open>axis\<close>: the entry
  whose coordinate on \<open>axis\<close> is the index stored for its position becomes 1.\<close>

definition scatter_one :: "tensor \<Rightarrow> nat \<Rightarrow> (nat \<Rightarrow> nat \<Rightarrow> nat \<Rightarrow> nat) \<Rightarrow> tensor" where
  "scatter_one z axis index = mk (d0 z) (d1 z) (d2 z)
     (\<lambda>i j l. if coord axis i j l = index i j l then 1 else el z i j l)"

definition detach :: "tensor \<Rightarrow> tensor" where
  "detach t = t"

section \<open>gumbel_softmax\<close>

text \<open>
  The sample \<^verbatim>\<open>gumbel_dist.sample(logits.shape)\<close> is an input of the model: \<open>noise\<close> holds
  the values drawn, one per entry of \<open>logits\<close>.
\<close>

definition gumbel_softmax ::
  "tensor \<Rightarrow> real \<Rightarrow> bool \<Rightarrow> int \<Rightarrow> bool \<Rightarrow> (nat \<Rightarrow> nat \<Rightarrow> nat \<Rightarrow> real) \<Rightarrow> error + tensor" where
  "gumbel_softmax logits tau hard axis is_training noise =
     (case wrap_dim axis of
        None \<Rightarrow> Inl TensorError
      | Some d \<Rightarrow>
          let y_soft =
                (if is_training
                 then (let gumbels = mk (d0 logits) (d1 logits) (d2 logits) noise;
                           gumbels = ew1 (\<lambda>v. v / tau) (ew2 (+) logits gumbels)
                       in softmax gumbels d)
                 else softmax logits d)
          in if hard
             then (case max_index y_soft d of
                     Inl e \<Rightarrow> Inl e
                   | Inr index \<Rightarrow>
                       let y_hard = scatter_one (zeros_like logits) d index
                       in Inr (ew2 (+) (ew2 (-) y_hard (detach y_soft)) y_soft))
             else Inr y_soft)"

text \<open>
  The derivative that automatic differentiation propagates through the same statements,
  in the direction \<open>dlogits\<close> of the scores: the sample, the one-hot tensor (built from an
  integer index) and a detached tensor carry derivative 0; sum, difference and division
  by the constant \<open>tau\<close> are linear; softmax has the derivative \<open>softmax_jvp\<close>.
\<close>

definition softmax_jvp :: "tensor \<Rightarrow> tensor \<Rightarrow> nat \<Rightarrow> tensor" where
  "softmax_jvp t dt axis = mk (d0 t) (d1 t) (d2 t)
     (\<lambda>i j l. el (softmax t axis) i j l *
        (el dt i j l - (\<Sum>k<size_of t axis. along (el (softmax t axis)) axis i j l k * along (el dt) axis i j l k)))"

definition gumbel_softmax_jvp ::
  "tensor \<Rightarrow> tensor \<Rightarrow> real \<Rightarrow> bool \<Rightarrow> int \<Rightarrow> bool \<Rightarrow> (nat \<Rightarrow> nat \<Rightarrow> nat \<Rightarrow> real) \<Rightarrow> error + tensor" where
  "gumbel_softmax_jvp logits dlogits tau hard axis is_training noise =
     (case wrap_dim axis of
        None \<Rightarrow> Inl TensorError
      | Some d \<Rightarrow>
          let y_soft =
                (if is_training
                 then (let gumbels = mk (d0 logits) (d1 logits) (d2 logits) noise;
                           gumbels = ew1 (\<lambda>v. v / tau) (ew2 (+) logits gumbels)
                       in softmax gumbels d)
                 else softmax logits d);
              dy_soft =
                (if is_training
                 then (let gumbels = mk (d0 logits) (d1 logits) (d2 logits) noise;
                           dgumbels = zeros_like logits;
                           dsum = ew1 (\<lambda>v. v / tau) (ew2 (+) dlogits dgumbels);
                           gumbels = ew1 (\<lambda>v. v / tau) (ew2 (+) logits gumbels)
                       in softmax_jvp gumbels dsum d)
                 else softmax_jvp logits dlogits d)
          in if hard
             then (case max_index y_soft d of
                     Inl e \<Rightarrow> Inl e
                   | Inr index \<Rightarrow>
                       let dy_hard = zeros_like logits;
                           ddetached = zeros_like y_soft
                       in Inr (ew2 (+) (ew2 (-) dy_hard ddetached) dy_soft))
             else Inr dy_soft)"

section \<open>Further tensor operations\<close>

definition bindE :: "error + 'a \<Rightarrow> ('a \<Rightarrow> error + 'b) \<Rightarrow> error + 'b" where
  "bindE m f = (case m of Inl e \<Rightarrow> Inl e | Inr x \<Rightarrow> f x)"

text \<open>\<^verbatim>\<open>x.permute(1, 0, 2)\<close> and \<^verbatim>\<open>x.permute(0, 2, 1)\<close>.\<close>

definition permute_102 :: "tensor \<Rightarrow> tensor" where
  "permute_102 t = mk (d1 t) (d0 t) (d2 t) (\<lambda>i j l. el t j i l)"

definition permute_021 :: "tensor \<Rightarrow> tensor" where
  "permute_021 t = mk (d0 t) (d2 t) (d1 t) (\<lambda>i j l. el t i l j)"

text \<open>\<^verbatim>\<open>torch.cat([a, b], dim=1)\<close>: the other two extents must agree.\<close>

definition cat1 :: "tensor \<Rightarrow> tensor \<Rightarrow> error + tensor" where
  "cat1 a b =
     (if d0 a = d0 b \<and> d2 a = d2 b
      then Inr (mk (d0 a) (d1 a + d1 b) (d2 a)
                  (\<lambda>i j l. if j < d1 a then el a i j l else el b i (j - d1 a) l))
      else Inl TensorError)"

text \<open>\<^verbatim>\<open>torch.split(x, [a, b], dim=1)\<close>: the two lengths are Python integers; they must
  not be negative and must add up to the extent of axis 1.\<close>

definition split_dim1 :: "tensor \<Rightarrow> int \<Rightarrow> int \<Rightarrow> error + tensor \<times> tensor" where
  "split_dim1 x a b =
     (if a < 0 \<or> b < 0 \<or> a + b \<noteq> int (d1 x) then Inl TensorError
      else Inr (mk (d0 x) (nat a) (d2 x) (el x),
                mk (d0 x) (nat b) (d2 x) (\<lambda>i j l. el x i (j + nat a) l)))"

text \<open>Broadcasting of two extents (equal, or one of them 1), and the index into an
  operand whose extent is \<open>n\<close>.\<close>

definition bdim :: "nat \<Rightarrow> nat \<Rightarrow> nat option" where
  "bdim a b = (if a = b then Some a else if a = 1 then Some b else if b = 1 then Some a else None)"

definition bidx :: "nat \<Rightarrow> nat \<Rightarrow> nat" where
  "bidx n i = (if n = 1 then 0 else i)"

definition bcast2 :: "(real \<Rightarrow> real \<Rightarrow> real) \<Rightarrow> tensor \<Rightarrow> tensor \<Rightarrow> error + tensor" where
  "bcast2 g a b =
     (case (bdim (d0 a) (d0 b), bdim (d1 a) (d1 b), bdim (d2 a) (d2 b)) of
        (Some n0, Some n1, Some n2) \<Rightarrow>
          Inr (mk n0 n1 n2
                 (\<lambda>i j l. g (el a (bidx (d0 a) i) (bidx (d1 a) j) (bidx (d2 a) l))
                             (el b (bidx (d0 b) i) (bidx (d1 b) j) (bidx (d2 b) l))))
      | _ \<Rightarrow> Inl TensorError)"

text \<open>The three contractions of the source. A subscript shared by both operands is
  broadcast like any other extent.
  \<^item> \<^verbatim>\<open>torch.einsum("...si,...di->...sd", a, b)\<close>
  \<^item> \<^verbatim>\<open>torch.einsum("...si,...id->...sd", a, b)\<close>
  \<^item> \<^verbatim>\<open>torch.einsum("...dh,...md->...mh", a, b)\<close>\<close>

definition einsum_si_di_sd :: "tensor \<Rightarrow> tensor \<Rightarrow> error + tensor" where
  "einsum_si_di_sd a b =
     (case (bdim (d0 a) (d0 b), bdim (d2 a) (d2 b)) of
        (Some n0, Some ni) \<Rightarrow>
          Inr (mk n0 (d1 a) (d1 b)
                 (\<lambda>e s d. \<Sum>i<ni. el a (bidx (d0 a) e) s (bidx (d2 a) i) *
                                   el b (bidx (d0 b) e) d (bidx (d2 b) i)))
      | _ \<Rightarrow> Inl TensorError)"

definition einsum_si_id_sd :: "tensor \<Rightarrow> tensor \<Rightarrow> error + tensor" where
  "einsum_si_id_sd a b =
     (case (bdim (d0 a) (d0 b), bdim (d2 a) (d1 b)) of
        (Some n0, Some ni) \<Rightarrow>
          Inr (mk n0 (d1 a) (d2 b)
                 (\<lambda>e s d. \<Sum>i<ni. el a (bidx (d0 a) e) s (bidx (d2 a) i) *
                                   el b (bidx (d0 b) e) (bidx (d1 b) i) d))
      | _ \<Rightarrow> Inl TensorError)"

definition einsum_dh_md_mh :: "tensor \<Rightarrow> tensor \<Rightarrow> error + tensor" where
  "einsum_dh_md_mh a b =
     (case (bdim (d0 a) (d0 b), bdim (d1 a) (d2 b)) of
        (Some n0, Some nd) \<Rightarrow>
          Inr (mk n0 (d1 b) (d2 a)
                 (\<lambda>e m h. \<Sum>d<nd. el a (bidx (d0 a) e) (bidx (d1 a) d) h *
                                   el b (bidx (d0 b) e) m (bidx (d2 b) d)))
      | _ \<Rightarrow> Inl TensorError)"

text \<open>\<^verbatim>\<open>torch.sum(t, dim=-1).unsqueeze(-1)\<close>, \<^verbatim>\<open>torch.clamp_min(t, min=m)\<close>,
  \<^verbatim>\<open>torch.mean(t, dim=1, keepdim=True)\<close> (over the reals; the library gives NaN for an
  empty axis) and \<^verbatim>\<open>torch.max(t, dim, keepdim=True)[0]\<close>.\<close>

definition sum_last_unsqueeze :: "tensor \<Rightarrow> tensor" where
  "sum_last_unsqueeze t = mk (d0 t) (d1 t) 1 (\<lambda>i j l. \<Sum>k<d2 t. el t i j k)"

definition clamp_min :: "tensor \<Rightarrow> real \<Rightarrow> tensor" where
  "clamp_min t m = ew1 (\<lambda>v. max v m) t"

definition mean_dim1_keepdim :: "tensor \<Rightarrow> tensor" where
  "mean_dim1_keepdim t = mk (d0 t) 1 (d2 t) (\<lambda>i j l. (\<Sum>k<d1 t. el t i k l) / real (d1 t))"

definition max_values :: "tensor \<Rightarrow> nat \<Rightarrow> error + tensor" where
  "max_values t axis =
     (case max_index t axis of
        Inl e \<Rightarrow> Inl e
      | Inr index \<Rightarrow>
          Inr (mk (if axis = 0 then 1 else d0 t) (if axis = 1 then 1 else d1 t)
                  (if axis = 0 \<or> axis = 1 then d2 t else 1)
                  (\<lambda>i j l. along (el t) axis i j l (index i j l))))"

section \<open>Layers of the tensor library\<close>

text \<open>
  \<^verbatim>\<open>nn.Linear\<close>, \<^verbatim>\<open>nn.LayerNorm\<close>, \<^verbatim>\<open>nn.Conv1d\<close> (kernel size 1, stride 1, no padding, no
  bias, as the source constructs it) and \<^verbatim>\<open>nn.Dropout\<close> are written out; their weights are
  arbitrary. \<^verbatim>\<open>nn.MultiheadAttention\<close> is a parameter of the model: a function from query,
  key and value to the attention output (\<^verbatim>\<open>need_weights=False\<close>, result \<^verbatim>\<open>[0]\<close>), or \<open>None\<close> when
  the library raises. The activation of \<open>Mlp\<close> (\<^verbatim>\<open>act_layer\<close>, by default \<^verbatim>\<open>nn.GELU\<close>) is a parameter too.
\<close>

record Linear =
  in_features :: nat
  out_features :: nat
  lin_weight :: "nat \<Rightarrow> nat \<Rightarrow> real"
  lin_bias :: "nat \<Rightarrow> real"

definition Linear_forward :: "Linear \<Rightarrow> tensor \<Rightarrow> error + tensor" where
  "Linear_forward m x =
     (if d2 x = in_features m
      then Inr (mk (d0 x) (d1 x) (out_features m)
                  (\<lambda>i j out. (\<Sum>k<in_features m. el x i j k * lin_weight m out k) + lin_bias m out))
      else Inl TensorError)"

record nn_LayerNorm =
  normalized_shape :: nat
  ln_weight :: "nat \<Rightarrow> real"
  ln_bias :: "nat \<Rightarrow> real"
  ln_eps :: real

definition nn_LayerNorm_forward :: "nn_LayerNorm \<Rightarrow> tensor \<Rightarrow> error + tensor" where
  "nn_LayerNorm_forward m x =
     (if d2 x = normalized_shape m
      then Inr (mk (d0 x) (d1 x) (d2 x)
                  (\<lambda>i j l.
                     let mean = (\<Sum>k<d2 x. el x i j k) / real (d2 x);
                         var = (\<Sum>k<d2 x. (el x i j k - mean)\<^sup>2) / real (d2 x)
                     in (el x i j l - mean) / sqrt (var + ln_eps m) * ln_weight m l + ln_bias m l))
      else Inl TensorError)"

record Conv1d =
  cv_in_channels :: nat
  cv_out_channels :: nat
  cv_groups :: nat
  cv_weight :: "nat \<Rightarrow> nat \<Rightarrow> real"

definition Conv1d_forward :: "Conv1d \<Rightarrow> tensor \<Rightarrow> error + tensor" where
  "Conv1d_forward m x =
     (if d1 x = cv_in_channels m
      then Inr (mk (d0 x) (cv_out_channels m) (d2 x)
                  (\<lambda>i out l.
                     let per_in = cv_in_channels m div cv_groups m;
                         per_out = cv_out_channels m div cv_groups m
                     in \<Sum>k<per_in. cv_weight m out k * el x i ((out div per_out) * per_in + k) l))
      else Inl TensorError)"

text \<open>\<^verbatim>\<open>nn.Dropout(p)\<close>: \<open>draws\<close> holds the Bernoulli draws of one call.\<close>

definition Dropout_forward :: "real \<Rightarrow> bool \<Rightarrow> (nat \<Rightarrow> nat \<Rightarrow> nat \<Rightarrow> real) \<Rightarrow> tensor \<Rightarrow> tensor" where
  "Dropout_forward p training draws x =
     (if training \<and> 0 < p
      then mk (d0 x) (d1 x) (d2 x) (\<lambda>i j l. el x i j l * draws i j l / (1 - p))
      else x)"

type_synonym MultiheadAttention = "tensor \<Rightarrow> tensor \<Rightarrow> tensor \<Rightarrow> tensor option"

definition library_call :: "'a option \<Rightarrow> error + 'a" where
  "library_call r = (case r of None \<Rightarrow> Inl TensorError | Some y \<Rightarrow> Inr y)"

text \<open>The contract of the attention primitive that the theorems below assume where they
  need one: called with a query of \<open>E\<close> channels, it returns a tensor of the query's shape.\<close>

definition MultiheadAttention_contract :: "nat \<Rightarrow> MultiheadAttention \<Rightarrow> bool" where
  "MultiheadAttention_contract E f =
     (\<forall>q k v. d2 q = E \<longrightarrow> (\<exists>r. f q k v = Some r \<and> dims r = dims q))"

text \<open>All random draws of one forward pass: the Gumbel sample, the uniform draws of the
  \<^verbatim>\<open>torch.rand\<close> calls of \<open>drop_path\<close> (numbered by call site) and the dropout masks
  (numbered by call site).\<close>

record randomness =
  gumbel_sample :: "nat \<Rightarrow> nat \<Rightarrow> nat \<Rightarrow> real"
  rand :: "nat \<Rightarrow> nat \<Rightarrow> real"
  dropout_mask :: "nat \<Rightarrow> nat \<Rightarrow> nat \<Rightarrow> nat \<Rightarrow> real"

section \<open>The modules of \<^verbatim>\<open>module_seg_vit.py\<close>\<close>

subsection \<open>drop_path, DropPath, Mlp, LayerNorm, QuickGELU\<close>

text \<open>\<open>u\<close> holds the draws of \<^verbatim>\<open>torch.rand(shape)\<close>, one per index of the first axis of \<open>x\<close>.\<close>

definition drop_path :: "tensor \<Rightarrow> real \<Rightarrow> bool \<Rightarrow> (nat \<Rightarrow> real) \<Rightarrow> tensor" where
  "drop_path x drop_prob training u =
     (if drop_prob = 0 \<or> \<not> training then x
      else let keep_prob = 1 - drop_prob;
               random_tensor = (\<lambda>i. real_of_int \<lfloor>keep_prob + u i\<rfloor>)
           in mk (d0 x) (d1 x) (d2 x) (\<lambda>i j l. el x i j l / keep_prob * random_tensor i))"

text \<open>The attribute \<^verbatim>\<open>self.drop_path\<close> of a block: \<open>Some p\<close> is \<^verbatim>\<open>DropPath(p)\<close>, \<open>None\<close> is
  \<^verbatim>\<open>nn.Identity()\<close>.\<close>

definition DropPath_forward :: "real option \<Rightarrow> bool \<Rightarrow> (nat \<Rightarrow> real) \<Rightarrow> tensor \<Rightarrow> tensor" where
  "DropPath_forward layer training u x =
     (case layer of None \<Rightarrow> x | Some drop_prob \<Rightarrow> drop_path x drop_prob training u)"

record Mlp =
  fc1 :: Linear
  mlp_act :: "real \<Rightarrow> real"
  fc2 :: Linear
  mlp_drop :: real

definition Mlp_forward ::
  "Mlp \<Rightarrow> bool \<Rightarrow> (nat \<Rightarrow> nat \<Rightarrow> nat \<Rightarrow> nat \<Rightarrow> real) \<Rightarrow> tensor \<Rightarrow> error + tensor" where
  "Mlp_forward m training draws x =
     bindE (Linear_forward (fc1 m) x) (\<lambda>x.
       let x = ew1 (mlp_act m) x;
           x = Dropout_forward (mlp_drop m) training (draws 0) x
       in bindE (Linear_forward (fc2 m) x) (\<lambda>x.
            Inr (Dropout_forward (mlp_drop m) training (draws 1) x)))"

text \<open>The subclass \<open>LayerNorm\<close> casts to float32 and back around \<^verbatim>\<open>nn.LayerNorm\<close>.\<close>

definition LayerNorm_forward :: "nn_LayerNorm \<Rightarrow> tensor \<Rightarrow> error + tensor" where
  "LayerNorm_forward m x = nn_LayerNorm_forward m x"

definition sigmoid :: "real \<Rightarrow> real" where
  "sigmoid v = 1 / (1 + exp (- v))"

definition QuickGELU :: "tensor \<Rightarrow> tensor" where
  "QuickGELU x = ew1 (\<lambda>v. v * sigmoid (1702 / 1000 * v)) x"

subsection \<open>ResidualAttentionBlock and CrossAttentionBlock\<close>

record ResidualAttentionBlock =
  rab_n_head :: nat
  rab_attn :: MultiheadAttention
  rab_ln_1 :: nn_LayerNorm
  rab_c_fc :: Linear
  rab_c_proj :: Linear
  rab_ln_2 :: nn_LayerNorm
  rab_drop_path :: "real option"

text \<open>The blocks stand in \<^verbatim>\<open>nn.Sequential\<close> containers, which call \<open>forward\<close> with the
  sequence alone: \<^verbatim>\<open>attn_mask\<close> is \<^verbatim>\<open>None\<close> in every call, and \<open>attention\<close> passes no mask on.\<close>

definition ResidualAttentionBlock_attention :: "ResidualAttentionBlock \<Rightarrow> tensor \<Rightarrow> error + tensor" where
  "ResidualAttentionBlock_attention m x = library_call (rab_attn m x x x)"

definition ResidualAttentionBlock_forward ::
  "ResidualAttentionBlock \<Rightarrow> bool \<Rightarrow> (nat \<Rightarrow> real) \<Rightarrow> (nat \<Rightarrow> real) \<Rightarrow> tensor \<Rightarrow> error + tensor" where
  "ResidualAttentionBlock_forward m training u1 u2 x =
     (let x = permute_102 x
      in bindE (LayerNorm_forward (rab_ln_1 m) x) (\<lambda>n1.
         bindE (ResidualAttentionBlock_attention m n1) (\<lambda>a.
         bindE (bcast2 (+) x (DropPath_forward (rab_drop_path m) training u1 a)) (\<lambda>x.
         bindE (LayerNorm_forward (rab_ln_2 m) x) (\<lambda>n2.
         bindE (Linear_forward (rab_c_fc m) n2) (\<lambda>h.
         bindE (Linear_forward (rab_c_proj m) (QuickGELU h)) (\<lambda>h.
         bindE (bcast2 (+) x (DropPath_forward (rab_drop_path m) training u2 h)) (\<lambda>x.
         Inr (permute_102 x)))))))))"

text \<open>A \<^verbatim>\<open>nn.Sequential\<close> of blocks; \<open>n\<close> numbers the \<^verbatim>\<open>torch.rand\<close> call sites.\<close>

fun Sequential_forward ::
  "ResidualAttentionBlock list \<Rightarrow> bool \<Rightarrow> (nat \<Rightarrow> nat \<Rightarrow> real) \<Rightarrow> nat \<Rightarrow> tensor \<Rightarrow> error + tensor" where
  "Sequential_forward [] training u n x = Inr x"
| "Sequential_forward (m # ms) training u n x =
     bindE (ResidualAttentionBlock_forward m training (u n) (u (n + 1)) x)
       (Sequential_forward ms training u (n + 2))"

record CrossAttentionBlock =
  cab_n_head :: nat
  cab_attn :: MultiheadAttention
  cab_ln_x :: nn_LayerNorm
  cab_ln_k :: nn_LayerNorm
  cab_c_fc :: Linear
  cab_c_proj :: Linear
  cab_ln_2 :: nn_LayerNorm

definition CrossAttentionBlock_forward :: "CrossAttentionBlock \<Rightarrow> tensor \<Rightarrow> tensor \<Rightarrow> error + tensor" where
  "CrossAttentionBlock_forward m q k =
     (let q = permute_102 q
      in bindE (LayerNorm_forward (cab_ln_x m) q) (\<lambda>nq.
         bindE (LayerNorm_forward (cab_ln_k m) k) (\<lambda>nk.
         bindE (library_call (cab_attn m nq nk nk)) (\<lambda>a.
         bindE (bcast2 (+) q a) (\<lambda>q.
         bindE (LayerNorm_forward (cab_ln_2 m) q) (\<lambda>n2.
         bindE (Linear_forward (cab_c_fc m) n2) (\<lambda>h.
         bindE (Linear_forward (cab_c_proj m) (QuickGELU h)) (\<lambda>h.
         bindE (bcast2 (+) q h) (\<lambda>q.
         Inr (permute_102 q))))))))))"

subsection \<open>SemanticLearnerModule\<close>

text \<open>\<open>semantic_center\<close> is the parameter of shape \<open>(num_tokens, in_channels)\<close>; \<open>proj_o\<close> is
  the sequence \<open>ln\<close>, \<open>mlp\<close>, \<open>QuickGELU\<close>.\<close>

record SemanticLearnerModule =
  slm_in_channels :: nat
  slm_num_heads :: nat
  slm_norm :: nn_LayerNorm
  slm_num_tokens :: nat
  semantic_center :: "nat \<Rightarrow> nat \<Rightarrow> real"
  cross_att :: "CrossAttentionBlock list"
  cross_ln :: nn_LayerNorm
  k_conv :: Conv1d
  k_ln :: nn_LayerNorm
  v_conv :: Conv1d
  proj_o_ln :: nn_LayerNorm
  proj_o_mlp :: Mlp

text \<open>The loop over \<^verbatim>\<open>self.cross_att\<close> (lines 293 to 295).\<close>

fun cross_att_loop :: "CrossAttentionBlock list \<Rightarrow> tensor \<Rightarrow> tensor \<Rightarrow> error + tensor" where
  "cross_att_loop [] q_feat org_inputs = Inr q_feat"
| "cross_att_loop (attn_fct # rest) q_feat org_inputs =
     bindE (cat1 q_feat org_inputs) (\<lambda>kv.
     bindE (CrossAttentionBlock_forward attn_fct q_feat kv) (\<lambda>q_feat.
     cross_att_loop rest q_feat org_inputs))"

text \<open>The divisor of line 310,
  \<^verbatim>\<open>torch.clamp_min(torch.sum(hard_attn, dim=-1).unsqueeze(-1), min=1.0)\<close>, and the
  aggregation step (lines 309 and 310).\<close>

definition normalizer :: "tensor \<Rightarrow> tensor" where
  "normalizer hard_attn = clamp_min (sum_last_unsqueeze hard_attn) 1"

definition aggregate :: "tensor \<Rightarrow> tensor \<Rightarrow> error + tensor" where
  "aggregate hard_attn v_feat =
     bindE (einsum_si_id_sd hard_attn v_feat) (\<lambda>outputs.
       bcast2 (/) outputs (normalizer hard_attn))"

definition proj_o_forward ::
  "SemanticLearnerModule \<Rightarrow> bool \<Rightarrow> (nat \<Rightarrow> nat \<Rightarrow> nat \<Rightarrow> nat \<Rightarrow> real) \<Rightarrow> tensor \<Rightarrow> error + tensor" where
  "proj_o_forward m training draws x =
     bindE (nn_LayerNorm_forward (proj_o_ln m) x) (\<lambda>x.
     bindE (Mlp_forward (proj_o_mlp m) training draws x) (\<lambda>x.
     Inr (QuickGELU x)))"

definition SemanticLearnerModule_forward ::
  "SemanticLearnerModule \<Rightarrow> bool \<Rightarrow> randomness \<Rightarrow> tensor
     \<Rightarrow> error + tensor \<times> tensor \<times> tensor \<times> tensor" where
  "SemanticLearnerModule_forward m training rnd inputs =
     (let org_inputs = inputs
      in bindE (nn_LayerNorm_forward (slm_norm m) inputs) (\<lambda>normed.
         let in_feature = permute_021 normed;
             q_feat = mk (d0 inputs) (slm_num_tokens m) (slm_in_channels m)
                        (\<lambda>b n c. semantic_center m n c)
         in bindE (cross_att_loop (cross_att m) q_feat org_inputs) (\<lambda>q_feat.
            bindE (nn_LayerNorm_forward (cross_ln m) q_feat) (\<lambda>q_feat.
            bindE (Conv1d_forward (k_conv m) in_feature) (\<lambda>k_feat.
            bindE (nn_LayerNorm_forward (k_ln m) (permute_021 k_feat)) (\<lambda>k_feat.
            bindE (Conv1d_forward (v_conv m) in_feature) (\<lambda>v_feat.
            let v_feat = permute_021 v_feat
            in bindE (einsum_si_di_sd q_feat k_feat) (\<lambda>attn.
               bindE (gumbel_softmax attn (9 / 10) True 1 training (gumbel_sample rnd)) (\<lambda>hard_attn.
               let soft_attn = softmax attn 1
               in bindE (aggregate hard_attn v_feat) (\<lambda>outputs.
                  bindE (bcast2 (+) q_feat outputs) (\<lambda>outputs.
                  bindE (proj_o_forward m training (dropout_mask rnd) outputs) (\<lambda>outputs.
                  Inr (outputs, hard_attn, soft_attn, q_feat)))))))))))))"

subsection \<open>ReconstructLayer\<close>

record ReconstructLayer =
  rl_in_channels :: nat
  rl_out_channels :: nat
  a_fc :: Linear

definition ReconstructLayer_forward :: "ReconstructLayer \<Rightarrow> tensor \<Rightarrow> tensor \<Rightarrow> error + tensor" where
  "ReconstructLayer_forward m inputs attn =
     (let attn = permute_021 attn
      in bindE (Linear_forward (a_fc m) attn) (\<lambda>attn.
         bindE (einsum_dh_md_mh inputs attn) (\<lambda>outputs.
         Inr (QuickGELU outputs))))"

subsection \<open>SegViT\<close>

record attn_pair =
  soft_attn :: tensor
  hard_attn :: tensor

record mid_states =
  hidden :: "tensor option"
  attns :: "attn_pair list"

record SegViT =
  dim_in :: nat
  patch_len :: int
  layers0 :: "ResidualAttentionBlock list"
  semantic_layer2 :: SemanticLearnerModule
  layers2 :: "ResidualAttentionBlock list"
  layers_mae2 :: "ResidualAttentionBlock list"
  reconstruct_layer2 :: ReconstructLayer

text \<open>The branch condition of line 423.\<close>

definition do_mae_mask :: "SegViT \<Rightarrow> tensor \<Rightarrow> bool" where
  "do_mae_mask m x = ((patch_len m)\<^sup>2 \<noteq> int (d1 x) \<and> 4 * (patch_len m)\<^sup>2 \<noteq> int (d1 x))"

text \<open>The two arms of the branch: lines 425 to 433 (reconstruction from the semantic
  tokens) and lines 435 to 448 (grouping). \<open>xp\<close> is the source's \<^verbatim>\<open>x_\<close>. The blocks of
  \<open>layers0\<close> use the \<^verbatim>\<open>torch.rand\<close> call sites from 0, those of the second stack the sites
  after them.\<close>

definition SegViT_mae_branch ::
  "SegViT \<Rightarrow> bool \<Rightarrow> randomness \<Rightarrow> mid_states \<Rightarrow> tensor \<Rightarrow> error + tensor \<times> mid_states" where
  "SegViT_mae_branch m training rnd mid xp =
     bindE (SemanticLearnerModule_forward (semantic_layer2 m) training rnd xp)
       (\<lambda>(sx, hard_attn_2, soft_attn_2, q).
     bindE (ReconstructLayer_forward (reconstruct_layer2 m) sx hard_attn_2) (\<lambda>xp.
     bindE (Sequential_forward (layers_mae2 m) training (rand rnd)
              (2 * length (layers0 m)) xp) (\<lambda>xp.
     let mid = mid\<lparr>hidden := Some xp\<rparr>;
         cls = mean_dim1_keepdim xp
     in bindE (cat1 cls xp) (\<lambda>x.
        Inr (x, mid)))))"

definition SegViT_full_branch ::
  "SegViT \<Rightarrow> bool \<Rightarrow> randomness \<Rightarrow> mid_states \<Rightarrow> tensor \<Rightarrow> error + tensor \<times> mid_states" where
  "SegViT_full_branch m training rnd mid xp =
     (let mid = mid\<lparr>hidden := Some xp\<rparr>;
          hard_attn_1 = (None :: tensor option);
          soft_attn_1 = (None :: tensor option)
      in bindE (SemanticLearnerModule_forward (semantic_layer2 m) training rnd xp)
           (\<lambda>(xp, hard_attn_2, soft_attn_2, q).
         bindE (Sequential_forward (layers2 m) training (rand rnd)
                  (2 * length (layers0 m)) xp) (\<lambda>xp.
         bindE (max_values xp 1) (\<lambda>cls.
         bindE (cat1 cls xp) (\<lambda>x.
         let mid = (case (soft_attn_1, hard_attn_1) of
                      (Some s, Some h) \<Rightarrow>
                        mid\<lparr>attns := attns mid @ [\<lparr>soft_attn = s, hard_attn = h\<rparr>]\<rparr>
                    | _ \<Rightarrow> mid);
             mid = mid\<lparr>attns := attns mid @
                          [\<lparr>soft_attn = soft_attn_2, hard_attn = hard_attn_2\<rparr>]\<rparr>
         in Inr (x, mid))))))"

text \<open>\<open>x\<close> is length-major; \<open>attn_mask\<close> is \<open>None\<close> or some object.\<close>

definition SegViT_forward ::
  "SegViT \<Rightarrow> bool \<Rightarrow> randomness \<Rightarrow> tensor \<Rightarrow> tensor option \<Rightarrow> int \<Rightarrow> error + tensor \<times> mid_states" where
  "SegViT_forward m training rnd x attn_mask video_frame =
     (let mid = \<lparr>hidden = None, attns = []\<rparr>;
          x = permute_102 x
      in if attn_mask \<noteq> None then Inl NotImplementedError
         else
           bindE (split_dim1 x 1 (int (d1 x) - 1)) (\<lambda>(cls, xp).
           bindE (Sequential_forward (layers0 m) training (rand rnd) 0 xp) (\<lambda>xp.
           bindE (if do_mae_mask m xp
                  then SegViT_mae_branch m training rnd mid xp
                  else SegViT_full_branch m training rnd mid xp) (\<lambda>(x, mid).
           Inr (permute_102 x, mid)))))"

subsection \<open>The constructors\<close>

text \<open>
  A constructor fixes the structure of a module (the sizes of its layers, the number of
  blocks) and leaves the weights free: they are drawn at random and changed by training.
  \<open>C_init args m\<close> holds when \<open>m\<close> has the structure that \<^verbatim>\<open>C(args)\<close> builds without raising;
  integer arguments that Python may take negative are of type \<open>int\<close>.
\<close>

definition Linear_init :: "nat \<Rightarrow> nat \<Rightarrow> Linear \<Rightarrow> bool" where
  "Linear_init n_in n_out m = (in_features m = n_in \<and> out_features m = n_out)"

definition Conv1d_init :: "nat \<Rightarrow> nat \<Rightarrow> nat \<Rightarrow> Conv1d \<Rightarrow> bool" where
  "Conv1d_init n_in n_out groups m =
     (0 < groups \<and> n_in mod groups = 0 \<and> n_out mod groups = 0 \<and>
      cv_in_channels m = n_in \<and> cv_out_channels m = n_out \<and> cv_groups m = groups)"

definition Mlp_init :: "nat \<Rightarrow> nat \<Rightarrow> nat \<Rightarrow> real \<Rightarrow> Mlp \<Rightarrow> bool" where
  "Mlp_init n_in hidden_features n_out p m =
     (let n_out = (if n_out = 0 then n_in else n_out);
          hidden_features = (if hidden_features = 0 then n_in else hidden_features)
      in Linear_init n_in hidden_features (fc1 m) \<and>
         Linear_init hidden_features n_out (fc2 m) \<and>
         mlp_drop m = p)"

definition ResidualAttentionBlock_init :: "nat \<Rightarrow> nat \<Rightarrow> real \<Rightarrow> ResidualAttentionBlock \<Rightarrow> bool" where
  "ResidualAttentionBlock_init d_model n_head p m =
     (0 < n_head \<and> d_model mod n_head = 0 \<and>
      rab_n_head m = n_head \<and>
      normalized_shape (rab_ln_1 m) = d_model \<and>
      Linear_init d_model (d_model * 4) (rab_c_fc m) \<and>
      Linear_init (d_model * 4) d_model (rab_c_proj m) \<and>
      normalized_shape (rab_ln_2 m) = d_model \<and>
      rab_drop_path m = (if 0 < p then Some p else None))"

definition CrossAttentionBlock_init :: "nat \<Rightarrow> nat \<Rightarrow> CrossAttentionBlock \<Rightarrow> bool" where
  "CrossAttentionBlock_init d_model n_head m =
     (0 < n_head \<and> d_model mod n_head = 0 \<and>
      cab_n_head m = n_head \<and>
      normalized_shape (cab_ln_x m) = d_model \<and>
      normalized_shape (cab_ln_k m) = d_model \<and>
      Linear_init d_model (d_model * 4) (cab_c_fc m) \<and>
      Linear_init (d_model * 4) d_model (cab_c_proj m) \<and>
      normalized_shape (cab_ln_2 m) = d_model)"

definition SemanticLearnerModule_init ::
  "nat \<Rightarrow> nat \<Rightarrow> nat \<Rightarrow> int \<Rightarrow> SemanticLearnerModule \<Rightarrow> bool" where
  "SemanticLearnerModule_init in_channels num_tokens num_heads cross_layer m =
     (slm_in_channels m = in_channels \<and>
      slm_num_heads m = num_heads \<and>
      normalized_shape (slm_norm m) = in_channels \<and>
      slm_num_tokens m = num_tokens \<and>
      length (cross_att m) = nat cross_layer \<and>
      list_all (CrossAttentionBlock_init in_channels num_heads) (cross_att m) \<and>
      normalized_shape (cross_ln m) = in_channels \<and>
      Conv1d_init in_channels in_channels num_heads (k_conv m) \<and>
      normalized_shape (k_ln m) = in_channels \<and>
      Conv1d_init in_channels in_channels num_heads (v_conv m) \<and>
      normalized_shape (proj_o_ln m) = in_channels \<and>
      Mlp_init in_channels (4 * in_channels) in_channels 0 (proj_o_mlp m))"

definition ReconstructLayer_init :: "nat \<Rightarrow> nat \<Rightarrow> ReconstructLayer \<Rightarrow> bool" where
  "ReconstructLayer_init in_channels out_channels m =
     (rl_in_channels m = in_channels \<and>
      rl_out_channels m = out_channels \<and>
      Linear_init in_channels in_channels (a_fc m))"

definition SegViT_init :: "nat \<Rightarrow> int \<Rightarrow> int \<Rightarrow> int \<Rightarrow> int \<Rightarrow> nat \<Rightarrow> SegViT \<Rightarrow> bool" where
  "SegViT_init n_dim patch_size input_resolution first_stage_layer cross_layer group_num m =
     (patch_size \<noteq> 0 \<and>
      dim_in m = n_dim \<and>
      patch_len m = input_resolution div patch_size \<and>
      (let depths0 = first_stage_layer;
           depths1 = 12 - first_stage_layer;
           num_heads = n_dim div 64
       in length (layers0 m) = nat depths0 \<and>
          list_all (ResidualAttentionBlock_init n_dim num_heads 0) (layers0 m) \<and>
          SemanticLearnerModule_init n_dim group_num num_heads cross_layer (semantic_layer2 m) \<and>
          length (layers2 m) = nat depths1 \<and>
          list_all (ResidualAttentionBlock_init n_dim num_heads 0) (layers2 m) \<and>
          length (layers_mae2 m) = nat depths1 \<and>
          list_all (ResidualAttentionBlock_init n_dim num_heads 0) (layers_mae2 m) \<and>
          ReconstructLayer_init group_num n_dim (reconstruct_layer2 m)))"

text \<open>The attention primitives of a model keep their contract.\<close>

definition SemanticLearnerModule_attention_ok :: "SemanticLearnerModule \<Rightarrow> bool" where
  "SemanticLearnerModule_attention_ok m =
     list_all (\<lambda>b. MultiheadAttention_contract (slm_in_channels m) (cab_attn b)) (cross_att m)"

definition SegViT_attention_ok :: "SegViT \<Rightarrow> bool" where
  "SegViT_attention_ok m =
     (list_all (\<lambda>b. MultiheadAttention_contract (dim_in m) (rab_attn b))
        (layers0 m @ layers2 m @ layers_mae2 m) \<and>
      SemanticLearnerModule_attention_ok (semantic_layer2 m))"

section \<open>Example models\<close>

text \<open>
  Concrete modules on which the theorems below are instantiated: weights as
  \<open>_init_weights\<close> leaves the biases and the layer norms (0 and 1), all other weights 0, and
  an attention primitive that returns its query.
\<close>

definition example_Linear :: "nat \<Rightarrow> nat \<Rightarrow> Linear" where
  "example_Linear n_in n_out =
     \<lparr>in_features = n_in, out_features = n_out, lin_weight = (\<lambda>out k. 0), lin_bias = (\<lambda>out. 0)\<rparr>"

definition example_LayerNorm :: "nat \<Rightarrow> nn_LayerNorm" where
  "example_LayerNorm n =
     \<lparr>normalized_shape = n, ln_weight = (\<lambda>k. 1), ln_bias = (\<lambda>k. 0), ln_eps = 1 / 100000\<rparr>"

definition example_Conv1d :: "nat \<Rightarrow> nat \<Rightarrow> Conv1d" where
  "example_Conv1d n groups =
     \<lparr>cv_in_channels = n, cv_out_channels = n, cv_groups = groups, cv_weight = (\<lambda>out k. 0)\<rparr>"

definition example_attention :: MultiheadAttention where
  "example_attention q k v = Some q"

definition example_ResidualAttentionBlock :: "nat \<Rightarrow> nat \<Rightarrow> ResidualAttentionBlock" where
  "example_ResidualAttentionBlock d_model n_head =
     \<lparr>rab_n_head = n_head, rab_attn = example_attention,
      rab_ln_1 = example_LayerNorm d_model,
      rab_c_fc = example_Linear d_model (d_model * 4),
      rab_c_proj = example_Linear (d_model * 4) d_model,
      rab_ln_2 = example_LayerNorm d_model,
      rab_drop_path = None\<rparr>"

definition example_CrossAttentionBlock :: "nat \<Rightarrow> nat \<Rightarrow> CrossAttentionBlock" where
  "example_CrossAttentionBlock d_model n_head =
     \<lparr>cab_n_head = n_head, cab_attn = example_attention,
      cab_ln_x = example_LayerNorm d_model,
      cab_ln_k = example_LayerNorm d_model,
      cab_c_fc = example_Linear d_model (d_model * 4),
      cab_c_proj = example_Linear (d_model * 4) d_model,
      cab_ln_2 = example_LayerNorm d_model\<rparr>"

definition example_SemanticLearnerModule :: "nat \<Rightarrow> nat \<Rightarrow> nat \<Rightarrow> nat \<Rightarrow> SemanticLearnerModule" where
  "example_SemanticLearnerModule in_channels num_tokens num_heads cross_layer =
     \<lparr>slm_in_channels = in_channels, slm_num_heads = num_heads,
      slm_norm = example_LayerNorm in_channels,
      slm_num_tokens = num_tokens,
      semantic_center = (\<lambda>n c. 0),
      cross_att = replicate cross_layer (example_CrossAttentionBlock in_channels num_heads),
      cross_ln = example_LayerNorm in_channels,
      k_conv = example_Conv1d in_channels num_heads,
      k_ln = example_LayerNorm in_channels,
      v_conv = example_Conv1d in_channels num_heads,
      proj_o_ln = example_LayerNorm in_channels,
      proj_o_mlp = \<lparr>fc1 = example_Linear in_channels (4 * in_channels), mlp_act = (\<lambda>v. v),
                    fc2 = example_Linear (4 * in_channels) in_channels, mlp_drop = 0\<rparr>\<rparr>"

definition example_ReconstructLayer :: "nat \<Rightarrow> nat \<Rightarrow> ReconstructLayer" where
  "example_ReconstructLayer in_channels out_channels =
     \<lparr>rl_in_channels = in_channels, rl_out_channels = out_channels,
      a_fc = example_Linear in_channels in_channels\<rparr>"

text \<open>\<^verbatim>\<open>SegViT(768, patch_size=16, input_resolution=224, first_stage_layer=10)\<close>, the model of
  the source's own \<^verbatim>\<open>__main__\<close> block (\<^verbatim>\<open>cross_layer=2\<close>, \<^verbatim>\<open>group_num=8\<close> by default).\<close>

definition example_SegViT :: SegViT where
  "example_SegViT =
     \<lparr>dim_in = 768, patch_len = 14,
      layers0 = replicate 10 (example_ResidualAttentionBlock 768 12),
      semantic_layer2 = example_SemanticLearnerModule 768 8 12 2,
      layers2 = replicate 2 (example_ResidualAttentionBlock 768 12),
      layers_mae2 = replicate 2 (example_ResidualAttentionBlock 768 12),
      reconstruct_layer2 = example_ReconstructLayer 8 768\<rparr>"

definition example_randomness :: randomness where
  "example_randomness =
     \<lparr>gumbel_sample = (\<lambda>i j l. 0), rand = (\<lambda>n i. 0), dropout_mask = (\<lambda>n i j l. 1)\<rparr>"

definition zeros :: "nat \<Rightarrow> nat \<Rightarrow> nat \<Rightarrow> tensor" where
  "zeros a b c = mk a b c (\<lambda>i j l. 0)"

section \<open>Facts about the tensor operations\<close>

lemma mk_sel [simp]: "d0 (mk a b c f) = a" "d1 (mk a b c f) = b" "d2 (mk a b c f) = c" "el (mk a b c f) = f"
  by (simp_all add: mk_def)

lemma argmax_first_less: "0 < n \<Longrightarrow> argmax_first f n < n"
  by (induction n) (auto simp: Let_def less_Suc_eq)

lemma sum_exp_pos: "0 < (n::nat) \<Longrightarrow> 0 < (\<Sum>k<n. exp (f k :: real))"
  by (rule sum_pos) auto

section \<open>The hard-routing function\<close>

lemma softmax_scalar_deriv:
  fixes n :: nat and x v :: "nat \<Rightarrow> real"
  assumes "0 < n"
  shows "((\<lambda>h. exp (x a + h * v a) / (\<Sum>k<n. exp (x k + h * v k))) has_real_derivative
           (exp (x a) / (\<Sum>k<n. exp (x k))) *
             (v a - (\<Sum>k<n. (exp (x k) / (\<Sum>m<n. exp (x m))) * v k))) (at 0)"
proof -
  let ?S = "\<Sum>k<n. exp (x k)"
  have S: "0 < ?S" using assms by (rule sum_exp_pos)
  have dS: "((\<lambda>h. \<Sum>k<n. exp (x k + h * v k)) has_real_derivative (\<Sum>k<n. exp (x k) * v k)) (at 0)"
    by (auto intro!: derivative_eq_intros)
  have dN: "((\<lambda>h. exp (x a + h * v a)) has_real_derivative exp (x a) * v a) (at 0)"
    by (auto intro!: derivative_eq_intros)
  have "((\<lambda>h. exp (x a + h * v a) / (\<Sum>k<n. exp (x k + h * v k))) has_real_derivative
          (exp (x a) * v a * ?S - exp (x a) * (\<Sum>k<n. exp (x k) * v k)) / (?S * ?S)) (at 0)"
    using DERIV_divide [OF dN dS] S by simp
  moreover have "(exp (x a) * v a * ?S - exp (x a) * (\<Sum>k<n. exp (x k) * v k)) / (?S * ?S)
      = (exp (x a) / ?S) * (v a - (\<Sum>k<n. (exp (x k) / ?S) * v k))"
  proof -
    have "(\<Sum>k<n. (exp (x k) / ?S) * v k) = (\<Sum>k<n. exp (x k) * v k) / ?S"
      by (simp add: sum_divide_distrib)
    then show ?thesis using S by (simp add: field_simps)
  qed
  ultimately show ?thesis by simp
qed

lemma along_pointwise:
  "along (\<lambda>i j l. g (f1 i j l) (f2 i j l)) d i j l k = g (along f1 d i j l k) (along f2 d i j l k)"
  by (simp add: along_def)

lemma along_coord: "f i j l = along f d i j l (coord d i j l)"
  by (simp add: along_def coord_def)

lemma softmax_jvp_derivative:
  assumes "0 < size_of t d"
  shows "((\<lambda>h. el (softmax (ew2 (\<lambda>x v. x + h * v) t dt) d) i j l) has_real_derivative
            el (softmax_jvp t dt d) i j l) (at 0)"
proof -
  let ?x = "along (el t) d i j l" and ?v = "along (el dt) d i j l" and ?a = "coord d i j l"
  have sz: "size_of (ew2 g t dt) d = size_of t d" for g
    by (simp add: size_of_def ew2_def)
  have lhs: "el (softmax (ew2 (\<lambda>x v. x + h * v) t dt) d) i j l
      = exp (?x ?a + h * ?v ?a) / (\<Sum>k<size_of t d. exp (?x k + h * ?v k))" for h
    unfolding softmax_def mk_sel sz
    by (simp add: ew2_def along_pointwise [where g = "\<lambda>x v. x + h * v"] along_coord [symmetric])
  have rhs: "el (softmax_jvp t dt d) i j l
      = (exp (?x ?a) / (\<Sum>k<size_of t d. exp (?x k))) *
          (?v ?a - (\<Sum>k<size_of t d. (exp (?x k) / (\<Sum>m<size_of t d. exp (?x m))) * ?v k))"
    unfolding softmax_jvp_def softmax_def mk_sel
    by (simp add: along_def coord_def)
  show ?thesis
    unfolding lhs rhs using assms by (rule softmax_scalar_deriv)
qed


lemma wrap_dim_simps: "wrap_dim 1 = Some 1" "wrap_dim (- 1) = Some 2" "wrap_dim 0 = Some 0"
  by (simp_all add: wrap_dim_def)


section \<open>Shapes of the layers\<close>

lemma bindE_simps [simp]: "bindE (Inl e) f = Inl e" "bindE (Inr x) f = f x"
  by (simp_all add: bindE_def)

lemma dims_mk [simp]: "dims (mk a b c f) = (a, b, c)"
  by (simp add: dims_def)

lemma dims_eq: "dims t = (a, b, c) \<longleftrightarrow> d0 t = a \<and> d1 t = b \<and> d2 t = c"
  by (auto simp: dims_def)

lemma dims_ew1 [simp]: "dims (ew1 g t) = dims t"
  by (simp add: ew1_def dims_def)

lemma dims_QuickGELU [simp]: "dims (QuickGELU t) = dims t"
  by (simp add: QuickGELU_def)

lemma dims_permute_102 [simp]: "dims (permute_102 t) = (d1 t, d0 t, d2 t)"
  by (simp add: permute_102_def)

lemma dims_permute_021 [simp]: "dims (permute_021 t) = (d0 t, d2 t, d1 t)"
  by (simp add: permute_021_def)

lemma dims_softmax [simp]: "dims (softmax t d) = dims t"
  by (simp add: softmax_def dims_def)

lemma sel_ew1 [simp]: "d0 (ew1 g t) = d0 t" "d1 (ew1 g t) = d1 t" "d2 (ew1 g t) = d2 t"
  by (simp_all add: ew1_def)

lemma sel_ew2 [simp]: "d0 (ew2 g t u) = d0 t" "d1 (ew2 g t u) = d1 t" "d2 (ew2 g t u) = d2 t"
  by (simp_all add: ew2_def)

lemma sel_QuickGELU [simp]:
  "d0 (QuickGELU t) = d0 t" "d1 (QuickGELU t) = d1 t" "d2 (QuickGELU t) = d2 t"
  by (simp_all add: QuickGELU_def)

lemma sel_permute_102 [simp]:
  "d0 (permute_102 t) = d1 t" "d1 (permute_102 t) = d0 t" "d2 (permute_102 t) = d2 t"
  by (simp_all add: permute_102_def)

lemma sel_permute_021 [simp]:
  "d0 (permute_021 t) = d0 t" "d1 (permute_021 t) = d2 t" "d2 (permute_021 t) = d1 t"
  by (simp_all add: permute_021_def)

lemma sel_softmax [simp]:
  "d0 (softmax t d) = d0 t" "d1 (softmax t d) = d1 t" "d2 (softmax t d) = d2 t"
  by (simp_all add: softmax_def)

lemma sel_DropPath_forward [simp]:
  "d0 (DropPath_forward layer training u x) = d0 x"
  "d1 (DropPath_forward layer training u x) = d1 x"
  "d2 (DropPath_forward layer training u x) = d2 x"
  by (simp_all add: DropPath_forward_def drop_path_def Let_def split: option.splits)

lemma sel_Dropout_forward [simp]:
  "d0 (Dropout_forward p training draws x) = d0 x"
  "d1 (Dropout_forward p training draws x) = d1 x"
  "d2 (Dropout_forward p training draws x) = d2 x"
  by (simp_all add: Dropout_forward_def)

lemma bdim_same [simp]: "bdim a a = Some a"
  by (simp add: bdim_def)

lemma bdim_one [simp]: "bdim a 1 = Some a" "bdim (Suc 0) a = Some a" "bdim a (Suc 0) = Some a"
  by (simp_all add: bdim_def)

lemma bidx_less [simp]: "i < n \<Longrightarrow> bidx n i = i"
  by (auto simp: bidx_def)

lemma nn_LayerNorm_forward_ok:
  "d2 x = normalized_shape m \<Longrightarrow> \<exists>r. nn_LayerNorm_forward m x = Inr r \<and> dims r = dims x"
  by (simp add: nn_LayerNorm_forward_def dims_def)

lemma LayerNorm_forward_ok:
  "d2 x = normalized_shape m \<Longrightarrow> \<exists>r. LayerNorm_forward m x = Inr r \<and> dims r = dims x"
  by (simp add: LayerNorm_forward_def nn_LayerNorm_forward_ok)

lemma Linear_forward_ok:
  "d2 x = in_features m \<Longrightarrow>
   \<exists>r. Linear_forward m x = Inr r \<and> dims r = (d0 x, d1 x, out_features m)"
  by (simp add: Linear_forward_def)

lemma bcast2_same_ok:
  "dims a = dims b \<Longrightarrow> \<exists>r. bcast2 g a b = Inr r \<and> dims r = dims a"
  by (simp add: bcast2_def dims_def)

lemma DropPath_forward_dims [simp]: "dims (DropPath_forward layer training u x) = dims x"
  by (simp add: DropPath_forward_def drop_path_def Let_def dims_def split: option.splits)

lemma Dropout_forward_dims [simp]: "dims (Dropout_forward p training draws x) = dims x"
  by (simp add: Dropout_forward_def dims_def)

lemma MultiheadAttention_contractD:
  "MultiheadAttention_contract E f \<Longrightarrow> d2 q = E \<Longrightarrow> \<exists>r. f q k v = Some r \<and> dims r = dims q"
  unfolding MultiheadAttention_contract_def by blast

lemma ResidualAttentionBlock_forward_ok:
  assumes init: "ResidualAttentionBlock_init C H p m"
    and att: "MultiheadAttention_contract C (rab_attn m)"
    and x: "d2 x = C"
  shows "\<exists>r. ResidualAttentionBlock_forward m training u1 u2 x = Inr r \<and> dims r = dims x"
proof -
  let ?x = "permute_102 x"
  have x2: "d2 ?x = C" using x by (simp add: permute_102_def)
  from init have ln1: "normalized_shape (rab_ln_1 m) = C" and ln2: "normalized_shape (rab_ln_2 m) = C"
    and fc: "in_features (rab_c_fc m) = C" "out_features (rab_c_fc m) = C * 4"
    and pr: "in_features (rab_c_proj m) = C * 4" "out_features (rab_c_proj m) = C"
    by (simp_all add: ResidualAttentionBlock_init_def Linear_init_def)
  obtain n1 where n1: "LayerNorm_forward (rab_ln_1 m) ?x = Inr n1" "dims n1 = dims ?x"
    using LayerNorm_forward_ok [of ?x "rab_ln_1 m"] x2 ln1 by auto
  have "d2 n1 = C" using n1(2) x2 by (simp add: dims_def)
  then obtain a where a: "rab_attn m n1 n1 n1 = Some a" "dims a = dims n1"
    using MultiheadAttention_contractD [OF att, of n1 n1 n1] by blast
  obtain x1 where x1: "bcast2 (+) ?x (DropPath_forward (rab_drop_path m) training u1 a) = Inr x1"
      "dims x1 = dims ?x"
    using bcast2_same_ok [of ?x "DropPath_forward (rab_drop_path m) training u1 a" "(+)"] a n1
    by auto
  have x1C: "d2 x1 = C" using x1(2) x2 by (simp add: dims_def)
  obtain n2 where n2: "LayerNorm_forward (rab_ln_2 m) x1 = Inr n2" "dims n2 = dims x1"
    using LayerNorm_forward_ok [of x1 "rab_ln_2 m"] x1C ln2 by auto
  have "d2 n2 = in_features (rab_c_fc m)" using n2(2) x1C fc by (simp add: dims_def)
  then obtain h where h: "Linear_forward (rab_c_fc m) n2 = Inr h" "dims h = (d0 n2, d1 n2, C * 4)"
    using Linear_forward_ok [of n2 "rab_c_fc m"] fc by auto
  have "d2 (QuickGELU h) = in_features (rab_c_proj m)" using h(2) pr
    by (simp add: dims_def QuickGELU_def ew1_def)
  then obtain h2 where h2: "Linear_forward (rab_c_proj m) (QuickGELU h) = Inr h2"
      "dims h2 = (d0 (QuickGELU h), d1 (QuickGELU h), C)"
    using Linear_forward_ok [of "QuickGELU h" "rab_c_proj m"] pr by auto
  have "dims h2 = dims x1"
    using h2(2) h(2) n2(2) x1C by (simp add: dims_def QuickGELU_def ew1_def)
  then obtain x2' where x2': "bcast2 (+) x1 (DropPath_forward (rab_drop_path m) training u2 h2) = Inr x2'"
      "dims x2' = dims x1"
    using bcast2_same_ok [of x1 "DropPath_forward (rab_drop_path m) training u2 h2" "(+)"] by auto
  have "dims (permute_102 x2') = dims x"
    using x2'(2) x1(2) by (simp add: dims_def permute_102_def)
  then show ?thesis
    by (simp add: ResidualAttentionBlock_forward_def Let_def n1 a x1 n2 h h2 x2'
        ResidualAttentionBlock_attention_def library_call_def)
qed


lemma bindE_ok:
  assumes "\<exists>r. m = Inr r \<and> P r" and "\<And>r. P r \<Longrightarrow> \<exists>y. f r = Inr y \<and> Q y"
  shows "\<exists>y. bindE m f = Inr y \<and> Q y"
  using assms by auto

lemma Sequential_forward_ok:
  assumes "list_all (ResidualAttentionBlock_init C H p) ms"
    and "list_all (\<lambda>b. MultiheadAttention_contract C (rab_attn b)) ms"
    and "d2 x = C"
  shows "\<exists>r. Sequential_forward ms training u n x = Inr r \<and> dims r = dims x"
  using assms
proof (induction ms arbitrary: x n)
  case Nil
  then show ?case by simp
next
  case (Cons m ms)
  obtain r where r: "ResidualAttentionBlock_forward m training (u n) (u (n + 1)) x = Inr r"
      "dims r = dims x"
    using ResidualAttentionBlock_forward_ok [of C H p m x training "u n" "u (n + 1)"] Cons.prems
    by auto
  have "d2 r = C" using r(2) Cons.prems(3) by (simp add: dims_def)
  then obtain r' where "Sequential_forward ms training u (n + 2) r = Inr r'" "dims r' = dims r"
    using Cons.IH [of r "n + 2"] Cons.prems by auto
  then show ?case using r by simp
qed

lemma CrossAttentionBlock_forward_ok:
  assumes init: "CrossAttentionBlock_init C H m"
    and att: "MultiheadAttention_contract C (cab_attn m)"
    and q: "d2 q = C" and k: "d2 k = C"
  shows "\<exists>r. CrossAttentionBlock_forward m q k = Inr r \<and> dims r = dims q"
proof -
  let ?q = "permute_102 q"
  have q2: "d2 ?q = C" using q by (simp add: permute_102_def)
  from init have lnx: "normalized_shape (cab_ln_x m) = C" and lnk: "normalized_shape (cab_ln_k m) = C"
    and ln2: "normalized_shape (cab_ln_2 m) = C"
    and fc: "in_features (cab_c_fc m) = C" "out_features (cab_c_fc m) = C * 4"
    and pr: "in_features (cab_c_proj m) = C * 4" "out_features (cab_c_proj m) = C"
    by (simp_all add: CrossAttentionBlock_init_def Linear_init_def)
  obtain nq where nq: "LayerNorm_forward (cab_ln_x m) ?q = Inr nq" "dims nq = dims ?q"
    using LayerNorm_forward_ok [of ?q "cab_ln_x m"] q2 lnx by auto
  obtain nk where nk: "LayerNorm_forward (cab_ln_k m) k = Inr nk" "dims nk = dims k"
    using LayerNorm_forward_ok [of k "cab_ln_k m"] k lnk by auto
  have "d2 nq = C" using nq(2) q2 by (simp add: dims_def)
  then obtain a where a: "cab_attn m nq nk nk = Some a" "dims a = dims nq"
    using MultiheadAttention_contractD [OF att, of nq nk nk] by blast
  obtain q1 where q1: "bcast2 (+) ?q a = Inr q1" "dims q1 = dims ?q"
    using bcast2_same_ok [of ?q a "(+)"] a nq by auto
  have q1C: "d2 q1 = C" using q1(2) q2 by (simp add: dims_def)
  obtain n2 where n2: "LayerNorm_forward (cab_ln_2 m) q1 = Inr n2" "dims n2 = dims q1"
    using LayerNorm_forward_ok [of q1 "cab_ln_2 m"] q1C ln2 by auto
  have "d2 n2 = in_features (cab_c_fc m)" using n2(2) q1C fc by (simp add: dims_def)
  then obtain h where h: "Linear_forward (cab_c_fc m) n2 = Inr h" "dims h = (d0 n2, d1 n2, C * 4)"
    using Linear_forward_ok [of n2 "cab_c_fc m"] fc by auto
  have "d2 (QuickGELU h) = in_features (cab_c_proj m)" using h(2) pr
    by (simp add: dims_def QuickGELU_def ew1_def)
  then obtain h2 where h2: "Linear_forward (cab_c_proj m) (QuickGELU h) = Inr h2"
      "dims h2 = (d0 (QuickGELU h), d1 (QuickGELU h), C)"
    using Linear_forward_ok [of "QuickGELU h" "cab_c_proj m"] pr by auto
  have "dims q1 = dims h2"
    using h2(2) h(2) n2(2) q1C by (simp add: dims_def QuickGELU_def ew1_def)
  then obtain q2' where q2': "bcast2 (+) q1 h2 = Inr q2'" "dims q2' = dims q1"
    using bcast2_same_ok [of q1 h2 "(+)"] by auto
  have "dims (permute_102 q2') = dims q"
    using q2'(2) q1(2) by (simp add: dims_def permute_102_def)
  then show ?thesis
    by (simp add: CrossAttentionBlock_forward_def Let_def nq nk a q1 n2 h h2 q2' library_call_def)
qed

lemma cat1_ok:
  "d0 a = d0 b \<Longrightarrow> d2 a = d2 b \<Longrightarrow>
   \<exists>r. cat1 a b = Inr r \<and> dims r = (d0 a, d1 a + d1 b, d2 a)"
  by (simp add: cat1_def)

lemma cross_att_loop_ok:
  assumes "list_all (CrossAttentionBlock_init C H) ms"
    and "list_all (\<lambda>b. MultiheadAttention_contract C (cab_attn b)) ms"
    and "d2 q = C" and "d2 x = C" and "d0 q = d0 x"
  shows "\<exists>r. cross_att_loop ms q x = Inr r \<and> dims r = dims q"
  using assms
proof (induction ms arbitrary: q)
  case Nil
  then show ?case by simp
next
  case (Cons m ms)
  obtain kv where kv: "cat1 q x = Inr kv" "dims kv = (d0 q, d1 q + d1 x, d2 q)"
    using cat1_ok [of q x] Cons.prems by auto
  have "d2 kv = C" using kv(2) Cons.prems(3) by (simp add: dims_def)
  then obtain r where r: "CrossAttentionBlock_forward m q kv = Inr r" "dims r = dims q"
    using CrossAttentionBlock_forward_ok [of C H m q kv] Cons.prems by auto
  have "d2 r = C" "d0 r = d0 x" using r(2) Cons.prems by (simp_all add: dims_def)
  then obtain r' where "cross_att_loop ms r x = Inr r'" "dims r' = dims r"
    using Cons.IH [of r] Cons.prems by auto
  then show ?case using kv r by simp
qed

lemma Conv1d_forward_ok:
  "d1 x = cv_in_channels m \<Longrightarrow>
   \<exists>r. Conv1d_forward m x = Inr r \<and> dims r = (d0 x, cv_out_channels m, d2 x)"
  by (simp add: Conv1d_forward_def)

lemma einsum_si_di_sd_ok:
  "d0 a = d0 b \<Longrightarrow> d2 a = d2 b \<Longrightarrow>
   \<exists>r. einsum_si_di_sd a b = Inr r \<and> dims r = (d0 a, d1 a, d1 b)"
  by (simp add: einsum_si_di_sd_def)

lemma einsum_si_id_sd_ok:
  "d0 a = d0 b \<Longrightarrow> d2 a = d1 b \<Longrightarrow>
   \<exists>r. einsum_si_id_sd a b = Inr r \<and> dims r = (d0 a, d1 a, d2 b)"
  by (simp add: einsum_si_id_sd_def)

lemma einsum_dh_md_mh_ok:
  "d0 a = d0 b \<Longrightarrow> d1 a = d2 b \<Longrightarrow>
   \<exists>r. einsum_dh_md_mh a b = Inr r \<and> dims r = (d0 a, d1 b, d2 a)"
  by (simp add: einsum_dh_md_mh_def)


section \<open>Routing and aggregation in SemanticLearnerModule\<close>

lemma wrap_dim_1 [simp]: "wrap_dim 1 = Some 1"
  by (simp add: wrap_dim_def)

lemma along_1 [simp]: "along f 1 i j l = (\<lambda>k. f i k l)" "along f (Suc 0) i j l = (\<lambda>k. f i k l)"
  by (rule ext, simp add: along_def)+

lemma straight_through_dim1:
  assumes "0 < d1 attn" "dims y = dims attn"
  shows "\<exists>index. max_index y 1 = Inr index \<and>
           dims (ew2 (+) (ew2 (-) (scatter_one (zeros_like attn) 1 index) (detach y)) y) = dims attn \<and>
           (\<forall>b l. \<exists>n<d1 attn. \<forall>n'.
              el (ew2 (+) (ew2 (-) (scatter_one (zeros_like attn) 1 index) (detach y)) y) b n' l
                = (if n' = n then 1 else 0))"
proof -
  define idx where "idx = (\<lambda>b l. argmax_first (\<lambda>k. el y b k l) (d1 attn))"
  have sz: "size_of y 1 = d1 attn" using assms(2) by (simp add: size_of_def dims_def)
  have "max_index y 1 = Inr (\<lambda>b j l. idx b l)"
    using assms(1) sz by (simp add: max_index_def idx_def)
  moreover have "el (ew2 (+) (ew2 (-) (scatter_one (zeros_like attn) 1 (\<lambda>b j l. idx b l)) (detach y)) y) b n' l
      = (if n' = idx b l then 1 else 0)" for b n' l
    by (simp add: ew2_def scatter_one_def zeros_like_def detach_def coord_def)
  moreover have "idx b l < d1 attn" for b l
    unfolding idx_def using assms(1) by (rule argmax_first_less)
  moreover have "dims (ew2 (+) (ew2 (-) (scatter_one (zeros_like attn) 1 (\<lambda>b j l. idx b l)) (detach y)) y)
      = dims attn"
    by (simp add: ew2_def scatter_one_def zeros_like_def dims_def)
  ultimately show ?thesis by blast
qed

lemma gumbel_softmax_hard_dim1:
  assumes "0 < d1 attn"
  shows "\<exists>h. gumbel_softmax attn tau True 1 training noise = Inr h \<and> dims h = dims attn \<and>
           (\<forall>b l. \<exists>n<d1 attn. \<forall>n'. el h b n' l = (if n' = n then 1 else 0))"
proof -
  define y where "y = (if training
      then softmax (ew1 (\<lambda>v. v / tau) (ew2 (+) attn (mk (d0 attn) (d1 attn) (d2 attn) noise))) 1
      else softmax attn 1)"
  have "dims y = dims attn"
    by (simp add: y_def ew1_def ew2_def dims_def softmax_def)
  from straight_through_dim1 [OF assms this] obtain index where
    index: "max_index y 1 = Inr index"
      "dims (ew2 (+) (ew2 (-) (scatter_one (zeros_like attn) 1 index) (detach y)) y) = dims attn"
      "\<forall>b l. \<exists>n<d1 attn. \<forall>n'.
              el (ew2 (+) (ew2 (-) (scatter_one (zeros_like attn) 1 index) (detach y)) y) b n' l
                = (if n' = n then 1 else 0)"
    by blast
  have "gumbel_softmax attn tau True 1 training noise =
      Inr (ew2 (+) (ew2 (-) (scatter_one (zeros_like attn) 1 index) (detach y)) y)"
    unfolding gumbel_softmax_def wrap_dim_1 option.case Let_def y_def [symmetric]
    by (simp add: index(1) del: One_nat_def)
  with index show ?thesis by simp
qed

lemma gumbel_softmax_empty_axis:
  "d1 attn = 0 \<Longrightarrow> gumbel_softmax attn tau True 1 training noise = Inl TensorError"
  by (simp add: gumbel_softmax_def Let_def max_index_def size_of_def softmax_def ew1_def ew2_def)

lemma softmax_dim1_sum:
  assumes "0 < d1 attn"
  shows "(\<Sum>n<d1 attn. el (softmax attn 1) b n l) = 1"
proof -
  have pos: "0 < (\<Sum>k<d1 attn. exp (el attn b k l))"
    using assms by (rule sum_exp_pos)
  have "el (softmax attn 1) b n l = exp (el attn b n l) / (\<Sum>k<d1 attn. exp (el attn b k l))" for n
    by (simp add: softmax_def size_of_def along_def)
  then have "(\<Sum>n<d1 attn. el (softmax attn 1) b n l)
      = (\<Sum>n<d1 attn. exp (el attn b n l)) / (\<Sum>k<d1 attn. exp (el attn b k l))"
    by (simp only: sum_divide_distrib)
  then show ?thesis using pos by simp
qed

lemma normalizer_el:
  "el (normalizer h) b n l = max (\<Sum>k<d2 h. el h b n k) 1"
  by (simp add: normalizer_def clamp_min_def sum_last_unsqueeze_def ew1_def)

lemma dims_normalizer [simp]: "dims (normalizer h) = (d0 h, d1 h, 1)"
  by (simp add: normalizer_def clamp_min_def sum_last_unsqueeze_def ew1_def)

lemma aggregate_ok:
  assumes "d0 h = d0 v" "d2 h = d1 v"
  shows "\<exists>r. aggregate h v = Inr r \<and> dims r = (d0 h, d1 h, d2 v) \<and>
           (\<forall>b<d0 h. \<forall>n<d1 h. \<forall>c<d2 v.
              el r b n c = (\<Sum>l<d2 h. el h b n l * el v b l c) / max (\<Sum>l<d2 h. el h b n l) 1)"
proof -
  have e: "einsum_si_id_sd h v = Inr (mk (d0 h) (d1 h) (d2 v)
      (\<lambda>e s d. \<Sum>i<d2 h. el h (bidx (d0 h) e) s (bidx (d2 h) i) * el v (bidx (d0 v) e) (bidx (d1 v) i) d))"
    using assms by (simp add: einsum_si_id_sd_def)
  have n: "d0 (normalizer h) = d0 h" "d1 (normalizer h) = d1 h" "d2 (normalizer h) = 1"
    using dims_normalizer [of h] by (simp_all add: dims_def)
  have s: "(\<Sum>i<d2 h. el h b n (bidx (d2 h) i) * el v b (bidx (d1 v) i) c)
      = (\<Sum>l<d2 h. el h b n l * el v b l c)" for b n c
    using assms by (intro sum.cong) auto
  show ?thesis
    using assms
    by (simp add: aggregate_def e bcast2_def n normalizer_el s)
qed


lemma Mlp_forward_ok:
  assumes "d2 x = in_features (fc1 m)" "out_features (fc1 m) = in_features (fc2 m)"
  shows "\<exists>r. Mlp_forward m training draws x = Inr r \<and> dims r = (d0 x, d1 x, out_features (fc2 m))"
proof -
  obtain h where h: "Linear_forward (fc1 m) x = Inr h" "dims h = (d0 x, d1 x, out_features (fc1 m))"
    using Linear_forward_ok [OF assms(1)] by auto
  let ?h = "Dropout_forward (mlp_drop m) training (draws 0) (ew1 (mlp_act m) h)"
  have dh: "dims ?h = dims h" by simp
  then have "d2 ?h = in_features (fc2 m)" using h(2) assms(2) by (simp add: dims_def)
  then obtain r where r: "Linear_forward (fc2 m) ?h = Inr r" "dims r = (d0 ?h, d1 ?h, out_features (fc2 m))"
    using Linear_forward_ok [of ?h "fc2 m"] by auto
  have "dims (Dropout_forward (mlp_drop m) training (draws 1) r) = (d0 x, d1 x, out_features (fc2 m))"
    using r(2) dh h(2) by (simp add: dims_def)
  then show ?thesis
    by (simp add: Mlp_forward_def Let_def h r)
qed

lemma proj_o_forward_ok:
  assumes init: "SemanticLearnerModule_init C N H L m" and x: "d2 x = C"
  shows "\<exists>r. proj_o_forward m training draws x = Inr r \<and> dims r = dims x"
proof -
  from init have ln: "normalized_shape (proj_o_ln m) = C"
    and mlp: "in_features (fc1 (proj_o_mlp m)) = C"
      "out_features (fc1 (proj_o_mlp m)) = in_features (fc2 (proj_o_mlp m))"
      "out_features (fc2 (proj_o_mlp m)) = C"
    by (auto simp: SemanticLearnerModule_init_def Mlp_init_def Linear_init_def Let_def split: if_splits)
  obtain n where n: "nn_LayerNorm_forward (proj_o_ln m) x = Inr n" "dims n = dims x"
    using nn_LayerNorm_forward_ok [of x "proj_o_ln m"] x ln by auto
  have "d2 n = in_features (fc1 (proj_o_mlp m))" using n(2) x mlp(1) by (simp add: dims_def)
  then obtain r where r: "Mlp_forward (proj_o_mlp m) training draws n = Inr r"
      "dims r = (d0 n, d1 n, out_features (fc2 (proj_o_mlp m)))"
    using Mlp_forward_ok [of n "proj_o_mlp m"] mlp(2) by blast
  have "dims (QuickGELU r) = dims x"
    using r(2) n(2) mlp(3) x by (simp add: dims_def)
  then show ?thesis
    by (simp add: proj_o_forward_def n r)
qed

lemma SemanticLearnerModule_forward_ok:
  assumes init: "SemanticLearnerModule_init C N H L m"
    and att: "SemanticLearnerModule_attention_ok m"
    and x: "d2 x = C" and N: "0 < N"
  shows "\<exists>outputs hard soft q attn v agg s.
           SemanticLearnerModule_forward m training rnd x = Inr (outputs, hard, soft, q) \<and>
           dims outputs = (d0 x, N, C) \<and> dims hard = (d0 x, N, d1 x) \<and>
           dims soft = (d0 x, N, d1 x) \<and> dims q = (d0 x, N, C) \<and>
           dims attn = (d0 x, N, d1 x) \<and>
           gumbel_softmax attn (9 / 10) True 1 training (gumbel_sample rnd) = Inr hard \<and>
           soft = softmax attn 1 \<and>
           dims v = (d0 x, d1 x, C) \<and> aggregate hard v = Inr agg \<and>
           bcast2 (+) q agg = Inr s \<and>
           proj_o_forward m training (dropout_mask rnd) s = Inr outputs"
proof -
  from init have ic: "slm_in_channels m = C" and nt: "slm_num_tokens m = N"
    and norm: "normalized_shape (slm_norm m) = C"
    and cl: "normalized_shape (cross_ln m) = C" and kl: "normalized_shape (k_ln m) = C"
    and ca: "list_all (CrossAttentionBlock_init C H) (cross_att m)"
    and kc: "cv_in_channels (k_conv m) = C" "cv_out_channels (k_conv m) = C"
    and vc: "cv_in_channels (v_conv m) = C" "cv_out_channels (v_conv m) = C"
    by (simp_all add: SemanticLearnerModule_init_def Conv1d_init_def)
  from att ic have att': "list_all (\<lambda>b. MultiheadAttention_contract C (cab_attn b)) (cross_att m)"
    by (simp add: SemanticLearnerModule_attention_ok_def)
  obtain normed where normed: "nn_LayerNorm_forward (slm_norm m) x = Inr normed" "dims normed = dims x"
    using nn_LayerNorm_forward_ok [of x "slm_norm m"] x norm by auto
  let ?inf = "permute_021 normed"
  let ?q0 = "mk (d0 x) (slm_num_tokens m) (slm_in_channels m) (\<lambda>b n c. semantic_center m n c)"
  have dinf: "dims ?inf = (d0 x, C, d1 x)" using normed(2) x by (simp add: dims_def)
  obtain q1 where q1: "cross_att_loop (cross_att m) ?q0 x = Inr q1" "dims q1 = dims ?q0"
    using cross_att_loop_ok [OF ca att', of ?q0 x] x ic by auto
  have dq1: "dims q1 = (d0 x, N, C)" using q1(2) ic nt by simp
  obtain q where q: "nn_LayerNorm_forward (cross_ln m) q1 = Inr q" "dims q = dims q1"
    using nn_LayerNorm_forward_ok [of q1 "cross_ln m"] dq1 cl by (auto simp: dims_def)
  obtain k1 where k1: "Conv1d_forward (k_conv m) ?inf = Inr k1" "dims k1 = (d0 ?inf, C, d2 ?inf)"
    using Conv1d_forward_ok [of ?inf "k_conv m"] dinf kc by (auto simp: dims_def)
  have dk1: "dims (permute_021 k1) = (d0 x, d1 x, C)" using k1(2) dinf by (simp add: dims_def)
  obtain k where k: "nn_LayerNorm_forward (k_ln m) (permute_021 k1) = Inr k" "dims k = dims (permute_021 k1)"
    using nn_LayerNorm_forward_ok [of "permute_021 k1" "k_ln m"] dk1 kl by (auto simp: dims_def)
  obtain v1 where v1: "Conv1d_forward (v_conv m) ?inf = Inr v1" "dims v1 = (d0 ?inf, C, d2 ?inf)"
    using Conv1d_forward_ok [of ?inf "v_conv m"] dinf vc by (auto simp: dims_def)
  let ?v = "permute_021 v1"
  have dv: "dims ?v = (d0 x, d1 x, C)" using v1(2) dinf by (simp add: dims_def)
  have dq: "dims q = (d0 x, N, C)" using q(2) dq1 by simp
  have dk: "dims k = (d0 x, d1 x, C)" using k(2) dk1 by simp
  obtain attn where attn: "einsum_si_di_sd q k = Inr attn" "dims attn = (d0 q, d1 q, d1 k)"
    using einsum_si_di_sd_ok [of q k] dq dk by (auto simp: dims_def)
  have dattn: "dims attn = (d0 x, N, d1 x)" using attn(2) dq dk by (simp add: dims_def)
  then have "0 < d1 attn" using N by (simp add: dims_def)
  then obtain hard where hard: "gumbel_softmax attn (9 / 10) True 1 training (gumbel_sample rnd) = Inr hard"
      "dims hard = dims attn"
    using gumbel_softmax_hard_dim1 [of attn "9 / 10" training "gumbel_sample rnd"] by blast
  have dhard: "dims hard = (d0 x, N, d1 x)" using hard(2) dattn by simp
  obtain agg where agg: "aggregate hard ?v = Inr agg" "dims agg = (d0 hard, d1 hard, d2 ?v)"
    using aggregate_ok [of hard ?v] dhard dv by (auto simp: dims_def)
  have dagg: "dims agg = dims q" using agg(2) dhard dv dq by (simp add: dims_def)
  obtain s where s: "bcast2 (+) q agg = Inr s" "dims s = dims q"
    using bcast2_same_ok [of q agg "(+)"] dagg by auto
  have "d2 s = C" using s(2) dq by (simp add: dims_def)
  then obtain outputs where outputs: "proj_o_forward m training (dropout_mask rnd) s = Inr outputs"
      "dims outputs = dims s"
    using proj_o_forward_ok [OF init, of s] by blast
  have fw: "SemanticLearnerModule_forward m training rnd x = Inr (outputs, hard, softmax attn 1, q)"
    unfolding SemanticLearnerModule_forward_def Let_def normed(1) bindE_simps q1(1) q(1) k1(1) k(1)
      v1(1) attn(1) hard(1) agg(1) s(1) outputs(1)
    by (rule refl)
  have dout: "dims outputs = (d0 x, N, C)" using outputs(2) s(2) dq by simp
  have dsoft: "dims (softmax attn 1) = (d0 x, N, d1 x)" using dattn by (simp del: One_nat_def)
  show ?thesis
    by (rule exI [of _ outputs], rule exI [of _ hard], rule exI [of _ "softmax attn 1"],
        rule exI [of _ q], rule exI [of _ attn], rule exI [of _ ?v], rule exI [of _ agg],
        rule exI [of _ s])
      (simp only: fw dout dsoft dq dhard dattn hard(1) dv agg(1) s(1) outputs(1) simp_thms)
qed

lemma example_attention_contract: "MultiheadAttention_contract E example_attention"
  by (simp add: MultiheadAttention_contract_def example_attention_def)

lemma list_all_replicate: "list_all P (replicate n x) \<longleftrightarrow> n = 0 \<or> P x"
  by (induction n) auto

lemma example_SemanticLearnerModule_init:
  "0 < H \<Longrightarrow> C mod H = 0 \<Longrightarrow> 0 < C \<Longrightarrow>
   SemanticLearnerModule_init C N H (int L) (example_SemanticLearnerModule C N H L)"
  by (simp add: SemanticLearnerModule_init_def example_SemanticLearnerModule_def
      example_LayerNorm_def example_Conv1d_def Conv1d_init_def Mlp_init_def Linear_init_def
      example_Linear_def list_all_replicate CrossAttentionBlock_init_def
      example_CrossAttentionBlock_def Let_def)

lemma example_SemanticLearnerModule_attention_ok:
  "SemanticLearnerModule_attention_ok (example_SemanticLearnerModule C N H L)"
  by (simp add: SemanticLearnerModule_attention_ok_def example_SemanticLearnerModule_def
      list_all_replicate example_CrossAttentionBlock_def example_attention_contract)






section \<open>ReconstructLayer\<close>

lemma ReconstructLayer_forward_value:
  assumes init: "ReconstructLayer_init N oc m"
    and i: "dims inputs = (B, N, C)" and a: "dims attn = (B, N, Len)"
  shows "ReconstructLayer_forward m inputs attn =
           Inr (QuickGELU (mk B Len C
             (\<lambda>e p h. \<Sum>d<N. el inputs (bidx B e) (bidx N d) h *
                ((\<Sum>k<N. el attn (bidx B e) k p * lin_weight (a_fc m) (bidx N d) k)
                  + lin_bias (a_fc m) (bidx N d)))))"
proof -
  from init have fc: "in_features (a_fc m) = N" "out_features (a_fc m) = N"
    by (simp_all add: ReconstructLayer_init_def Linear_init_def)
  have si: "d0 inputs = B" "d1 inputs = N" "d2 inputs = C"
    and sa: "d0 attn = B" "d1 attn = N" "d2 attn = Len"
    using i a by (simp_all add: dims_def)
  have l: "Linear_forward (a_fc m) (permute_021 attn) =
      Inr (mk B Len N (\<lambda>e p d. (\<Sum>k<N. el attn e k p * lin_weight (a_fc m) d k) + lin_bias (a_fc m) d))"
    by (simp add: Linear_forward_def fc sa permute_021_def)
  show ?thesis
    by (simp add: ReconstructLayer_forward_def Let_def l einsum_dh_md_mh_def si)
qed

lemma ReconstructLayer_forward_mismatch:
  assumes init: "ReconstructLayer_init ic oc m"
    and i: "dims inputs = (B, Len, C)" and a: "dims attn = (B, N, Len)"
    and ne: "Len \<noteq> N" "Len \<noteq> 1" "N \<noteq> 1"
  shows "ReconstructLayer_forward m inputs attn = Inl TensorError"
proof -
  from init have fc: "in_features (a_fc m) = ic" "out_features (a_fc m) = ic"
    by (simp_all add: ReconstructLayer_init_def Linear_init_def)
  have si: "d0 inputs = B" "d1 inputs = Len" "d2 inputs = C"
    and sa: "d0 attn = B" "d1 attn = N" "d2 attn = Len"
    using i a by (simp_all add: dims_def)
  show ?thesis
  proof (cases "ic = N")
    case True
    have "Linear_forward (a_fc m) (permute_021 attn) =
      Inr (mk B Len N (\<lambda>e p d. (\<Sum>k<N. el attn e k p * lin_weight (a_fc m) d k) + lin_bias (a_fc m) d))"
      by (simp add: Linear_forward_def fc sa permute_021_def True)
    then show ?thesis
      using ne by (simp add: ReconstructLayer_forward_def Let_def einsum_dh_md_mh_def si bdim_def)
  next
    case False
    then have "Linear_forward (a_fc m) (permute_021 attn) = Inl TensorError"
      by (simp add: Linear_forward_def fc sa)
    then show ?thesis
      by (simp add: ReconstructLayer_forward_def Let_def)
  qed
qed

lemma example_ReconstructLayer_init:
  "ReconstructLayer_init ic oc (example_ReconstructLayer ic oc)"
  by (simp add: ReconstructLayer_init_def example_ReconstructLayer_def Linear_init_def
      example_Linear_def)

text \<open>
  C6, as stated, fails: with \<open>inputs\<close> of shape \<open>(B, Len, C) = (1, 3, 4)\<close>, a routing map of
  shape \<open>(B, N, Len) = (1, 2, 3)\<close> and a layer built with \<open>out_channels = Len = 3\<close>, \<open>forward\<close>
  raises: the linear layer maps \<open>in_channels\<close> to \<open>in_channels\<close> (\<open>out_channels\<close> is stored and
  never used), and the contraction then meets extents 3 and 2.
\<close>

theorem ReconstructLayer_out_channels_counterexample:
  "ReconstructLayer_init 2 3 (example_ReconstructLayer 2 3) \<and>
   rl_out_channels (example_ReconstructLayer 2 3) = 3 \<and>
   dims (zeros 1 3 4) = (1, 3, 4) \<and> dims (zeros 1 2 3) = (1, 2, 3) \<and>
   ReconstructLayer_forward (example_ReconstructLayer 2 3) (zeros 1 3 4) (zeros 1 2 3)
     = Inl TensorError"
proof -
  have "ReconstructLayer_forward (example_ReconstructLayer 2 3) (zeros 1 3 4) (zeros 1 2 3)
     = Inl TensorError"
    by (rule ReconstructLayer_forward_mismatch [OF example_ReconstructLayer_init, of _ 1 3 4 _ 2])
      (simp_all add: zeros_def)
  moreover have "rl_out_channels (example_ReconstructLayer 2 3) = 3"
    by (simp add: example_ReconstructLayer_def)
  moreover have "dims (zeros 1 3 4) = (1, 3, 4)" "dims (zeros 1 2 3) = (1, 2, 3)"
    by (simp_all add: zeros_def)
  ultimately show ?thesis
    using example_ReconstructLayer_init [of 2 3] by simp
qed

text \<open>
  C6, amended. \<open>forward\<close> applied to \<open>inputs\<close> of shape \<open>(B, N, C)\<close> (the grouped tokens) and a
  routing map \<open>attn\<close> of shape \<open>(B, N, Len)\<close>, for a layer built with \<open>in_channels = N\<close> and any
  \<open>out_channels\<close>, returns a tensor of shape \<open>(B, Len, C)\<close>: it permutes \<open>attn\<close>, applies the one
  linear layer over the \<open>N\<close> axis (from \<open>N\<close> to \<open>N\<close>), contracts with \<open>inputs\<close> over \<open>N\<close> and
  applies QuickGELU.
\<close>

theorem ReconstructLayer_forward_shape:
  assumes init: "ReconstructLayer_init N oc m"
    and i: "dims inputs = (B, N, C)" and a: "dims attn = (B, N, Len)"
  shows "\<exists>outputs. ReconstructLayer_forward m inputs attn = Inr outputs \<and>
           dims outputs = (B, Len, C) \<and>
           (\<forall>b<B. \<forall>p<Len. \<forall>h<C.
              el outputs b p h
                = (let mixed = (\<lambda>d. (\<Sum>k<N. el attn b k p * lin_weight (a_fc m) d k) + lin_bias (a_fc m) d);
                       v = (\<Sum>d<N. el inputs b d h * mixed d)
                   in v * sigmoid (1702 / 1000 * v)))"
proof -
  have "(\<Sum>d<N. el inputs b (bidx N d) h *
          ((\<Sum>k<N. el attn b k p * lin_weight (a_fc m) (bidx N d) k) + lin_bias (a_fc m) (bidx N d)))
      = (\<Sum>d<N. el inputs b d h *
          ((\<Sum>k<N. el attn b k p * lin_weight (a_fc m) d k) + lin_bias (a_fc m) d))" for b h p
    by (intro sum.cong) auto
  then show ?thesis
    unfolding ReconstructLayer_forward_value [OF init i a]
    by (simp add: QuickGELU_def ew1_def Let_def)
qed

theorem ReconstructLayer_forward_shape_witness:
  "ReconstructLayer_init 2 3 (example_ReconstructLayer 2 3) \<and>
   dims (zeros 1 2 4) = (1, 2, 4) \<and> dims (zeros 1 2 3) = (1, 2, 3) \<and>
   (\<exists>outputs. ReconstructLayer_forward (example_ReconstructLayer 2 3) (zeros 1 2 4) (zeros 1 2 3)
        = Inr outputs \<and> dims outputs = (1, 3, 4) \<and> el outputs 0 0 0 = 0)"
proof -
  have i: "dims (zeros 1 2 4) = (1, 2, 4)" and a: "dims (zeros 1 2 3) = (1, 2, 3)"
    by (simp_all add: zeros_def)
  from ReconstructLayer_forward_shape [OF example_ReconstructLayer_init i a, of 3]
  show ?thesis
    using i a example_ReconstructLayer_init [of 2 3]
    by (auto simp: zeros_def Let_def)
qed

section \<open>SegViT\<close>

lemma split_dim1_first:
  assumes "d1 x = Suc n"
  shows "split_dim1 x 1 (int (d1 x) - 1) =
           Inr (mk (d0 x) 1 (d2 x) (el x), mk (d0 x) n (d2 x) (\<lambda>i j l. el x i (j + 1) l))"
  using assms by (simp add: split_dim1_def)

lemma split_dim1_empty:
  "d1 x = 0 \<Longrightarrow> split_dim1 x 1 (int (d1 x) - 1) = Inl TensorError"
  by (simp add: split_dim1_def)

lemma max_values_dim1_ok:
  "0 < d1 t \<Longrightarrow> \<exists>r. max_values t 1 = Inr r \<and> dims r = (d0 t, 1, d2 t)"
  by (simp add: max_values_def max_index_def size_of_def)

lemma sel_mean_dim1_keepdim [simp]:
  "d0 (mean_dim1_keepdim t) = d0 t" "d1 (mean_dim1_keepdim t) = 1" "d2 (mean_dim1_keepdim t) = d2 t"
  by (simp_all add: mean_dim1_keepdim_def)

lemma SegViT_init_facts:
  assumes "SegViT_init C ps res fsl cl gn m"
  shows "dim_in m = C" "patch_len m = res div ps"
    "list_all (ResidualAttentionBlock_init C (C div 64) 0) (layers0 m)"
    "list_all (ResidualAttentionBlock_init C (C div 64) 0) (layers2 m)"
    "list_all (ResidualAttentionBlock_init C (C div 64) 0) (layers_mae2 m)"
    "SemanticLearnerModule_init C gn (C div 64) cl (semantic_layer2 m)"
    "ReconstructLayer_init gn C (reconstruct_layer2 m)"
  using assms by (simp_all add: SegViT_init_def Let_def)

lemma SegViT_attention_ok_facts:
  assumes "SegViT_attention_ok m" "dim_in m = C"
  shows "list_all (\<lambda>b. MultiheadAttention_contract C (rab_attn b)) (layers0 m)"
    "list_all (\<lambda>b. MultiheadAttention_contract C (rab_attn b)) (layers2 m)"
    "list_all (\<lambda>b. MultiheadAttention_contract C (rab_attn b)) (layers_mae2 m)"
    "SemanticLearnerModule_attention_ok (semantic_layer2 m)"
  using assms by (simp_all add: SegViT_attention_ok_def)

lemma SegViT_full_branch_ok:
  assumes init: "SegViT_init C ps res fsl cl gn m" and att: "SegViT_attention_ok m"
    and xp: "dims xp = (B, Len, C)" and gn: "0 < gn"
  shows "\<exists>x hard soft.
           SegViT_full_branch m training rnd \<lparr>hidden = None, attns = []\<rparr> xp =
             Inr (x, \<lparr>hidden = Some xp, attns = [\<lparr>soft_attn = soft, hard_attn = hard\<rparr>]\<rparr>) \<and>
           dims x = (B, 1 + gn, C) \<and> dims hard = (B, gn, Len) \<and> dims soft = (B, gn, Len)"
proof -
  note i = SegViT_init_facts [OF init]
  note a = SegViT_attention_ok_facts [OF att i(1)]
  have sx: "d0 xp = B" "d1 xp = Len" "d2 xp = C" using xp by (simp_all add: dims_def)
  from SemanticLearnerModule_forward_ok [OF i(6) a(4) sx(3) gn, of training rnd]
  obtain outputs hard soft q where
    fw: "SemanticLearnerModule_forward (semantic_layer2 m) training rnd xp = Inr (outputs, hard, soft, q)"
    and d: "dims outputs = (B, gn, C)" "dims hard = (B, gn, Len)" "dims soft = (B, gn, Len)"
    unfolding sx by blast
  have "d2 outputs = C" using d(1) by (simp add: dims_def)
  from Sequential_forward_ok [OF i(4) a(2) this, of training "rand rnd" "2 * length (layers0 m)"]
  obtain y where y: "Sequential_forward (layers2 m) training (rand rnd) (2 * length (layers0 m)) outputs = Inr y"
    "dims y = dims outputs" by blast
  have sy: "d0 y = B" "d1 y = gn" "d2 y = C" using y(2) d(1) by (simp_all add: dims_def)
  obtain cls where cls: "max_values y 1 = Inr cls" "dims cls = (d0 y, 1, d2 y)"
    using max_values_dim1_ok [of y] sy gn by auto
  have sc: "d0 cls = B" "d1 cls = 1" "d2 cls = C" using cls(2) sy by (simp_all add: dims_def)
  obtain x where x: "cat1 cls y = Inr x" "dims x = (d0 cls, d1 cls + d1 y, d2 cls)"
    using cat1_ok [of cls y] sc sy by auto
  have dx: "dims x = (B, 1 + gn, C)" using x(2) sc sy by simp
  have "SegViT_full_branch m training rnd \<lparr>hidden = None, attns = []\<rparr> xp =
      Inr (x, \<lparr>hidden = Some xp, attns = [\<lparr>soft_attn = soft, hard_attn = hard\<rparr>]\<rparr>)"
    unfolding SegViT_full_branch_def Let_def fw bindE_simps prod.case y(1) cls(1) x(1)
    by simp
  with dx d show ?thesis by blast
qed

lemma SegViT_mae_branch_ok:
  assumes init: "SegViT_init C ps res fsl cl gn m" and att: "SegViT_attention_ok m"
    and xp: "dims xp = (B, Len, C)" and gn: "0 < gn"
  shows "\<exists>x xr.
           SegViT_mae_branch m training rnd \<lparr>hidden = None, attns = []\<rparr> xp =
             Inr (x, \<lparr>hidden = Some xr, attns = []\<rparr>) \<and>
           dims x = (B, 1 + Len, C) \<and> dims xr = (B, Len, C) \<and>
           (\<forall>b c. el x b 0 c = (\<Sum>k<Len. el xr b k c) / real Len) \<and>
           (\<forall>b j c. el x b (Suc j) c = el xr b j c)"
proof -
  note i = SegViT_init_facts [OF init]
  note a = SegViT_attention_ok_facts [OF att i(1)]
  have sx: "d0 xp = B" "d1 xp = Len" "d2 xp = C" using xp by (simp_all add: dims_def)
  from SemanticLearnerModule_forward_ok [OF i(6) a(4) sx(3) gn, of training rnd]
  obtain outputs hard soft q where
    fw: "SemanticLearnerModule_forward (semantic_layer2 m) training rnd xp = Inr (outputs, hard, soft, q)"
    and d: "dims outputs = (B, gn, C)" "dims hard = (B, gn, Len)"
    unfolding sx by blast
  from ReconstructLayer_forward_shape [OF i(7) d(1) d(2)]
  obtain r where r: "ReconstructLayer_forward (reconstruct_layer2 m) outputs hard = Inr r"
    "dims r = (B, Len, C)" by blast
  have "d2 r = C" using r(2) by (simp add: dims_def)
  from Sequential_forward_ok [OF i(5) a(3) this, of training "rand rnd" "2 * length (layers0 m)"]
  obtain xr where xr: "Sequential_forward (layers_mae2 m) training (rand rnd) (2 * length (layers0 m)) r = Inr xr"
    "dims xr = dims r" by blast
  have sr: "d0 xr = B" "d1 xr = Len" "d2 xr = C" using xr(2) r(2) by (simp_all add: dims_def)
  let ?x = "mk B (1 + Len) C (\<lambda>i j l. if j < 1 then el (mean_dim1_keepdim xr) i j l else el xr i (j - 1) l)"
  have c: "cat1 (mean_dim1_keepdim xr) xr = Inr ?x"
    by (simp add: cat1_def sr cong: if_cong)
  have "SegViT_mae_branch m training rnd \<lparr>hidden = None, attns = []\<rparr> xp =
      Inr (?x, \<lparr>hidden = Some xr, attns = []\<rparr>)"
    unfolding SegViT_mae_branch_def Let_def fw bindE_simps prod.case r(1) xr(1) c
    by simp
  moreover have "el ?x b 0 c = (\<Sum>k<Len. el xr b k c) / real Len" for b c
    by (simp add: mean_dim1_keepdim_def sr)
  moreover have "el ?x b (Suc j) c = el xr b j c" for b j c
    by simp
  moreover have "dims ?x = (B, 1 + Len, C)" by simp
  moreover have "dims xr = (B, Len, C)" using xr(2) r(2) by simp
  ultimately show ?thesis by blast
qed

lemma SegViT_stage1_ok:
  assumes init: "SegViT_init C ps res fsl cl gn m" and att: "SegViT_attention_ok m"
    and x: "dims x = (Suc Len, B, C)"
  shows "\<exists>cls xp0 xp. split_dim1 (permute_102 x) 1 (int (d1 (permute_102 x)) - 1) = Inr (cls, xp0) \<and>
           Sequential_forward (layers0 m) training (rand rnd) 0 xp0 = Inr xp \<and>
           dims xp = (B, Len, C)"
proof -
  note i = SegViT_init_facts [OF init]
  note a = SegViT_attention_ok_facts [OF att i(1)]
  have sx: "d0 x = Suc Len" "d1 x = B" "d2 x = C" using x by (simp_all add: dims_def)
  let ?xp0 = "mk (d0 (permute_102 x)) Len (d2 (permute_102 x)) (\<lambda>i j l. el (permute_102 x) i (j + 1) l)"
  have sp: "split_dim1 (permute_102 x) 1 (int (d1 (permute_102 x)) - 1) =
      Inr (mk (d0 (permute_102 x)) 1 (d2 (permute_102 x)) (el (permute_102 x)), ?xp0)"
    by (rule split_dim1_first) (simp add: sx)
  have "d2 ?xp0 = C" by (simp add: sx)
  from Sequential_forward_ok [OF i(3) a(1) this, of training "rand rnd" 0]
  obtain xp where xp: "Sequential_forward (layers0 m) training (rand rnd) 0 ?xp0 = Inr xp"
    "dims xp = dims ?xp0" by blast
  have "dims xp = (B, Len, C)" using xp(2) by (simp add: sx)
  with sp xp(1) show ?thesis by blast
qed

section \<open>Inference does not depend on the random draws\<close>

lemma gumbel_softmax_inference:
  "gumbel_softmax logits tau hard axis False noise = gumbel_softmax logits tau hard axis False noise'"
  by (cases "wrap_dim axis") (simp_all add: gumbel_softmax_def)

lemma drop_path_inference: "drop_path x p False u = x"
  by (simp add: drop_path_def)

lemma DropPath_forward_inference: "DropPath_forward layer False u x = x"
  by (simp add: DropPath_forward_def drop_path_inference split: option.splits)

lemma Dropout_forward_inference: "Dropout_forward p False draws x = x"
  by (simp add: Dropout_forward_def)

lemma Mlp_forward_inference: "Mlp_forward m False draws x = Mlp_forward m False draws' x"
  by (simp add: Mlp_forward_def Dropout_forward_inference)

lemma ResidualAttentionBlock_forward_inference:
  "ResidualAttentionBlock_forward m False u1 u2 x = ResidualAttentionBlock_forward m False u1' u2' x"
  by (simp add: ResidualAttentionBlock_forward_def DropPath_forward_inference)

lemma Sequential_forward_inference:
  "Sequential_forward ms False u n x = Sequential_forward ms False u' n' x"
proof (induction ms arbitrary: n n' x)
  case Nil
  show ?case by simp
next
  case (Cons m ms)
  have "Sequential_forward ms False u (n + 2) = Sequential_forward ms False u' (n' + 2)"
    by (rule ext) (rule Cons.IH)
  then show ?case
    using ResidualAttentionBlock_forward_inference [of m "u n" "u (n + 1)" x "u' n'" "u' (n' + 1)"]
    by simp
qed

lemma Sequential_forward_inference_same:
  "Sequential_forward ms False u n x = Sequential_forward ms False u' n x"
  by (rule Sequential_forward_inference)

lemma SemanticLearnerModule_forward_inference:
  "SemanticLearnerModule_forward m False rnd x = SemanticLearnerModule_forward m False rnd' x"
  unfolding SemanticLearnerModule_forward_def proj_o_forward_def
    gumbel_softmax_inference [of _ _ _ _ "gumbel_sample rnd" "gumbel_sample rnd'"]
    Mlp_forward_inference [of _ "dropout_mask rnd" _ "dropout_mask rnd'"]
  by (rule refl)

lemma SegViT_branches_inference:
  "SegViT_mae_branch m False rnd mid xp = SegViT_mae_branch m False rnd' mid xp"
  "SegViT_full_branch m False rnd mid xp = SegViT_full_branch m False rnd' mid xp"
  unfolding SegViT_mae_branch_def SegViT_full_branch_def
    SemanticLearnerModule_forward_inference [of _ rnd _ rnd']
    Sequential_forward_inference_same [of _ "rand rnd" _ _ "rand rnd'"]
  by (rule refl)+

text \<open>
  C7. With \<open>training = False\<close> the result of \<open>SegViT.forward\<close> and of
  \<open>SemanticLearnerModule.forward\<close> is the same whatever the random draws are: the Gumbel
  sample is not read, \<open>drop_path\<close> and dropout return their argument.
\<close>

theorem inference_is_deterministic:
  "SegViT_forward m False rnd x attn_mask video_frame =
     SegViT_forward m False rnd' x attn_mask video_frame \<and>
   SemanticLearnerModule_forward sm False rnd inputs =
     SemanticLearnerModule_forward sm False rnd' inputs \<and>
   gumbel_softmax logits tau hard axis False noise =
     gumbel_softmax logits tau hard axis False noise' \<and>
   drop_path t p False u = t \<and>
   Dropout_forward p False draws t = t"
  unfolding SegViT_forward_def SegViT_branches_inference [of _ rnd _ _ rnd']
    Sequential_forward_inference_same [of _ "rand rnd" _ _ "rand rnd'"]
  using SemanticLearnerModule_forward_inference [of sm rnd inputs rnd']
    gumbel_softmax_inference [of logits tau hard axis noise noise']
  by (simp add: drop_path_inference Dropout_forward_inference)

section \<open>The two paths of SegViT.forward\<close>

lemma example_ResidualAttentionBlock_init:
  "0 < H \<Longrightarrow> C mod H = 0 \<Longrightarrow>
   ResidualAttentionBlock_init C H 0 (example_ResidualAttentionBlock C H)"
  by (simp add: ResidualAttentionBlock_init_def example_ResidualAttentionBlock_def
      example_LayerNorm_def Linear_init_def example_Linear_def)

lemma example_SegViT_init: "SegViT_init 768 16 224 10 2 8 example_SegViT"
proof -
  have b: "ResidualAttentionBlock_init 768 12 0 (example_ResidualAttentionBlock 768 12)"
    by (rule example_ResidualAttentionBlock_init) simp_all
  have s: "SemanticLearnerModule_init 768 8 12 2 (example_SemanticLearnerModule 768 8 12 2)"
    using example_SemanticLearnerModule_init [of 12 768 8 2] by simp
  show ?thesis
    by (simp add: SegViT_init_def example_SegViT_def Let_def list_all_replicate b s
        example_ReconstructLayer_init)
qed

lemma example_SegViT_attention_ok: "SegViT_attention_ok example_SegViT"
  by (simp add: SegViT_attention_ok_def example_SegViT_def list_all_replicate
      example_ResidualAttentionBlock_def example_attention_contract
      example_SemanticLearnerModule_attention_ok)

lemma SegViT_forward_no_mask:
  "SegViT_forward m training rnd x None video_frame =
     bindE (split_dim1 (permute_102 x) 1 (int (d1 (permute_102 x)) - 1)) (\<lambda>(cls, xp).
     bindE (Sequential_forward (layers0 m) training (rand rnd) 0 xp) (\<lambda>xp.
     bindE (if do_mae_mask m xp
            then SegViT_mae_branch m training rnd \<lparr>hidden = None, attns = []\<rparr> xp
            else SegViT_full_branch m training rnd \<lparr>hidden = None, attns = []\<rparr> xp) (\<lambda>(x, mid).
     Inr (permute_102 x, mid))))"
  by (simp add: SegViT_forward_def Let_def)

text \<open>
  C4. For a model built with \<open>input_resolution = 224\<close> and \<open>patch_size = 16\<close> the patch
  length is 14, and the branch of \<open>forward\<close> is decided by the length of the patch sequence
  after stage 1 alone: length 196 or 784 takes the grouping path, every other length (150,
  say) the reconstruction path.
\<close>

theorem SegViT_branch_selection:
  assumes init: "SegViT_init C 16 224 first_stage_layer cross_layer group_num m"
  shows "patch_len m = 14 \<and>
         do_mae_mask m xp = (d1 xp \<noteq> 196 \<and> d1 xp \<noteq> 784) \<and>
         SegViT_forward m training rnd x None video_frame =
           bindE (split_dim1 (permute_102 x) 1 (int (d1 (permute_102 x)) - 1)) (\<lambda>(cls, xp).
           bindE (Sequential_forward (layers0 m) training (rand rnd) 0 xp) (\<lambda>xp.
           bindE (if d1 xp = 196 \<or> d1 xp = 784
                  then SegViT_full_branch m training rnd \<lparr>hidden = None, attns = []\<rparr> xp
                  else SegViT_mae_branch m training rnd \<lparr>hidden = None, attns = []\<rparr> xp) (\<lambda>(x, mid).
           Inr (permute_102 x, mid))))"
proof -
  have p: "patch_len m = 14" using SegViT_init_facts(2) [OF init] by simp
  have d: "do_mae_mask m t = (d1 t \<noteq> 196 \<and> d1 t \<noteq> 784)" for t
    by (auto simp: do_mae_mask_def p)
  have "(if do_mae_mask m t
            then SegViT_mae_branch m training rnd \<lparr>hidden = None, attns = []\<rparr> t
            else SegViT_full_branch m training rnd \<lparr>hidden = None, attns = []\<rparr> t)
      = (if d1 t = 196 \<or> d1 t = 784
                  then SegViT_full_branch m training rnd \<lparr>hidden = None, attns = []\<rparr> t
                  else SegViT_mae_branch m training rnd \<lparr>hidden = None, attns = []\<rparr> t)" for t
    by (simp add: d)
  then show ?thesis
    unfolding SegViT_forward_no_mask by (simp add: p d)
qed

theorem SegViT_branch_selection_witness:
  "SegViT_init 768 16 224 10 2 8 example_SegViT \<and>
   patch_len example_SegViT = 14 \<and>
   do_mae_mask example_SegViT (zeros 2 196 768) = False \<and>
   do_mae_mask example_SegViT (zeros 2 784 768) = False \<and>
   do_mae_mask example_SegViT (zeros 2 150 768) = True"
  using SegViT_branch_selection [OF example_SegViT_init, of "zeros 2 196 768"]
    SegViT_branch_selection [OF example_SegViT_init, of "zeros 2 784 768"]
    SegViT_branch_selection [OF example_SegViT_init, of "zeros 2 150 768"]
    example_SegViT_init
  by (simp add: zeros_def)

lemma SegViT_forward_full_path:
  assumes init: "SegViT_init C ps res fsl cl gn m" and att: "SegViT_attention_ok m"
    and x: "dims x = (Suc Len, B, C)" and gn: "0 < gn"
    and grid: "(res div ps)\<^sup>2 = int Len \<or> 4 * (res div ps)\<^sup>2 = int Len"
  shows "\<exists>out xp hard soft.
           SegViT_forward m training rnd x None video_frame =
             Inr (out, \<lparr>hidden = Some xp, attns = [\<lparr>soft_attn = soft, hard_attn = hard\<rparr>]\<rparr>) \<and>
           dims out = (1 + gn, B, C) \<and> dims xp = (B, Len, C) \<and>
           dims hard = (B, gn, Len) \<and> dims soft = (B, gn, Len)"
proof -
  from SegViT_stage1_ok [OF init att x, of training rnd]
  obtain cls xp0 xp where
    sp: "split_dim1 (permute_102 x) 1 (int (d1 (permute_102 x)) - 1) = Inr (cls, xp0)"
    and l0: "Sequential_forward (layers0 m) training (rand rnd) 0 xp0 = Inr xp"
    and dxp: "dims xp = (B, Len, C)" by blast
  have "d1 xp = Len" using dxp by (simp add: dims_def)
  then have nm: "\<not> do_mae_mask m xp"
    using grid SegViT_init_facts(2) [OF init] by (auto simp: do_mae_mask_def)
  from SegViT_full_branch_ok [OF init att dxp gn, of training rnd]
  obtain y hard soft where
    fb: "SegViT_full_branch m training rnd \<lparr>hidden = None, attns = []\<rparr> xp =
             Inr (y, \<lparr>hidden = Some xp, attns = [\<lparr>soft_attn = soft, hard_attn = hard\<rparr>]\<rparr>)"
    and d: "dims y = (B, 1 + gn, C)" "dims hard = (B, gn, Len)" "dims soft = (B, gn, Len)"
    by blast
  have "SegViT_forward m training rnd x None video_frame =
      Inr (permute_102 y, \<lparr>hidden = Some xp, attns = [\<lparr>soft_attn = soft, hard_attn = hard\<rparr>]\<rparr>)"
    unfolding SegViT_forward_no_mask sp bindE_simps prod.case l0
    by (simp add: nm fb)
  moreover have "dims (permute_102 y) = (1 + gn, B, C)" using d(1) by (simp add: dims_def)
  ultimately show ?thesis using dxp d(2,3) by blast
qed





section \<open>The attention-mask check\<close>

text \<open>Every failure below the mask check is a failure of the tensor library.\<close>

lemma bindE_lib:
  assumes "m \<noteq> Inl NotImplementedError" and "\<And>y. f y \<noteq> Inl NotImplementedError"
  shows "bindE m f \<noteq> Inl NotImplementedError"
  using assms by (cases m) (auto simp: bindE_def)

lemma lib_basic:
  "library_call r \<noteq> Inl NotImplementedError"
  "nn_LayerNorm_forward lnm x \<noteq> Inl NotImplementedError"
  "LayerNorm_forward lnm x \<noteq> Inl NotImplementedError"
  "Linear_forward lin x \<noteq> Inl NotImplementedError"
  "Conv1d_forward cv x \<noteq> Inl NotImplementedError"
  "bcast2 g a b \<noteq> Inl NotImplementedError"
  "cat1 a b \<noteq> Inl NotImplementedError"
  "split_dim1 x i j \<noteq> Inl NotImplementedError"
  "einsum_si_di_sd a b \<noteq> Inl NotImplementedError"
  "einsum_si_id_sd a b \<noteq> Inl NotImplementedError"
  "einsum_dh_md_mh a b \<noteq> Inl NotImplementedError"
  "max_index x d \<noteq> Inl NotImplementedError"
  by (auto simp: library_call_def nn_LayerNorm_forward_def LayerNorm_forward_def Linear_forward_def
      Conv1d_forward_def bcast2_def cat1_def split_dim1_def einsum_si_di_sd_def
      einsum_si_id_sd_def einsum_dh_md_mh_def max_index_def
      split: option.splits prod.splits)

lemma lib_max_values: "max_values x d \<noteq> Inl NotImplementedError"
  by (auto simp: max_values_def max_index_def)

lemma lib_gumbel_softmax:
  "gumbel_softmax logits tau hard axis training noise \<noteq> Inl NotImplementedError"
  by (auto simp: gumbel_softmax_def Let_def max_index_def split: option.splits)

lemma lib_aggregate: "aggregate h v \<noteq> Inl NotImplementedError"
  unfolding aggregate_def by (intro bindE_lib lib_basic)

lemma lib_Mlp_forward: "Mlp_forward m training draws x \<noteq> Inl NotImplementedError"
  unfolding Mlp_forward_def Let_def by (intro bindE_lib lib_basic) simp

lemma lib_proj_o_forward: "proj_o_forward m training draws x \<noteq> Inl NotImplementedError"
  unfolding proj_o_forward_def by (intro bindE_lib lib_basic lib_Mlp_forward) simp

lemma lib_ResidualAttentionBlock_forward:
  "ResidualAttentionBlock_forward m training u1 u2 x \<noteq> Inl NotImplementedError"
  unfolding ResidualAttentionBlock_forward_def ResidualAttentionBlock_attention_def Let_def
  by (intro bindE_lib lib_basic) simp

lemma lib_Sequential_forward:
  "Sequential_forward ms training u n x \<noteq> Inl NotImplementedError"
proof (induction ms arbitrary: n x)
  case Nil
  show ?case by simp
next
  case (Cons m ms)
  show ?case
    unfolding Sequential_forward.simps
    by (intro bindE_lib lib_ResidualAttentionBlock_forward Cons.IH)
qed

lemma lib_CrossAttentionBlock_forward:
  "CrossAttentionBlock_forward m q k \<noteq> Inl NotImplementedError"
  unfolding CrossAttentionBlock_forward_def Let_def
  by (intro bindE_lib lib_basic) simp

lemma lib_cross_att_loop: "cross_att_loop ms q x \<noteq> Inl NotImplementedError"
proof (induction ms arbitrary: q)
  case Nil
  show ?case by simp
next
  case (Cons m ms)
  show ?case
    unfolding cross_att_loop.simps
    by (intro bindE_lib lib_basic lib_CrossAttentionBlock_forward Cons.IH)
qed

lemma lib_SemanticLearnerModule_forward:
  "SemanticLearnerModule_forward m training rnd x \<noteq> Inl NotImplementedError"
  unfolding SemanticLearnerModule_forward_def Let_def
  by (intro bindE_lib lib_basic lib_cross_att_loop lib_gumbel_softmax lib_aggregate
      lib_proj_o_forward) simp

lemma lib_ReconstructLayer_forward:
  "ReconstructLayer_forward m inputs attn \<noteq> Inl NotImplementedError"
  unfolding ReconstructLayer_forward_def Let_def
  by (intro bindE_lib lib_basic) simp

lemma lib_split_pair:
  assumes "\<And>a b. f a b \<noteq> Inl NotImplementedError"
  shows "(case p of (a, b) \<Rightarrow> f a b) \<noteq> Inl NotImplementedError"
  using assms by (cases p) simp

lemma lib_split_quad:
  assumes "\<And>a b c d. f a b c d \<noteq> Inl NotImplementedError"
  shows "(case p of (a, b, c, d) \<Rightarrow> f a b c d) \<noteq> Inl NotImplementedError"
  using assms by (cases p) simp

lemma lib_SegViT_mae_branch:
  "SegViT_mae_branch m training rnd mid xp \<noteq> Inl NotImplementedError"
  unfolding SegViT_mae_branch_def Let_def
  by (intro bindE_lib lib_split_quad lib_basic lib_SemanticLearnerModule_forward
      lib_ReconstructLayer_forward lib_Sequential_forward) simp

lemma lib_SegViT_full_branch:
  "SegViT_full_branch m training rnd mid xp \<noteq> Inl NotImplementedError"
  unfolding SegViT_full_branch_def Let_def
  by (intro bindE_lib lib_split_quad lib_basic lib_SemanticLearnerModule_forward
      lib_max_values lib_Sequential_forward) simp

text \<open>
  C8. \<open>forward\<close> raises \<open>NotImplementedError\<close> exactly when the attention mask is not \<open>None\<close>:
  with a mask it fails whatever the model and the input are (nothing of the grouping is
  computed), and without one it runs the rest of the pass, every failure of which is a
  failure of the tensor library.
\<close>

theorem SegViT_forward_attn_mask:
  "(SegViT_forward m training rnd x attn_mask video_frame = Inl NotImplementedError)
     = (attn_mask \<noteq> None) \<and>
   SegViT_forward m training rnd x (Some a) video_frame = Inl NotImplementedError \<and>
   SegViT_forward m training rnd x None video_frame =
     bindE (split_dim1 (permute_102 x) 1 (int (d1 (permute_102 x)) - 1)) (\<lambda>(cls, xp).
     bindE (Sequential_forward (layers0 m) training (rand rnd) 0 xp) (\<lambda>xp.
     bindE (if do_mae_mask m xp
            then SegViT_mae_branch m training rnd \<lparr>hidden = None, attns = []\<rparr> xp
            else SegViT_full_branch m training rnd \<lparr>hidden = None, attns = []\<rparr> xp) (\<lambda>(x, mid).
     Inr (permute_102 x, mid))))"
proof -
  have none: "SegViT_forward m training rnd x None video_frame \<noteq> Inl NotImplementedError"
    unfolding SegViT_forward_no_mask
    by (intro bindE_lib lib_split_pair lib_basic lib_Sequential_forward)
      (auto simp: lib_SegViT_mae_branch lib_SegViT_full_branch)
  have some: "SegViT_forward m training rnd x (Some b) video_frame = Inl NotImplementedError" for b
    by (simp add: SegViT_forward_def Let_def)
  have "(SegViT_forward m training rnd x attn_mask video_frame = Inl NotImplementedError)
     = (attn_mask \<noteq> None)"
    using none some by (cases attn_mask) auto
  then show ?thesis
    using some [of a] SegViT_forward_no_mask [of m training rnd x video_frame] by simp
qed

end
